theory Spec2Isabelle
  imports Main
begin

section \<open>Data model of the session verification controller\<close>

text \<open>
  The controller (\<^verbatim>\<open>src/server/controllers/VerificationController.ts\<close>) keeps, per
  session, a file store and a registry of contract wrappers, and talks to external
  collaborators (grouping, verification engine, compiler, block explorer, repository).
  Every endpoint is modelled as a function from the collaborators, the request and the
  session to an outcome: the response (or the error thrown), the session as the request
  leaves it, and the list of collaborator calls made, in order.
\<close>

type_synonym verification_id = string

datatype error =
    ValidationError string
  | BadRequestError string
  | NotFoundError string
  | Failure string

fun error_message :: "error \<Rightarrow> string" where
  "error_message (ValidationError m) = m"
| "error_message (BadRequestError m) = m"
| "error_message (NotFoundError m) = m"
| "error_message (Failure m) = m"

record pathContent =
  path :: string
  content :: string

text \<open>
  The fields of \<^verbatim>\<open>CheckedContract\<close> the controller reads and writes. The declaration
  is not part of the controller; metadata is kept as its JSON text, \<open>missing\<close> and
  \<open>invalid\<close> as the ordered lists of source paths of the data model.
\<close>

record checkedContract =
  metadata :: string
  solidity :: "(string \<times> string) list"
  missing :: "string list"
  invalid :: "string list"
  creationBytecode :: "string option"

text \<open>
  \<^verbatim>\<open>new CheckedContract(metadata, solidity, missing, invalid)\<close>: a fresh object,
  with no creation bytecode yet.
\<close>

definition new_CheckedContract ::
  "string \<Rightarrow> (string \<times> string) list \<Rightarrow> string list \<Rightarrow> string list \<Rightarrow> checkedContract" where
  "new_CheckedContract md srcs mis ivs =
     \<lparr>metadata = md, solidity = srcs, missing = mis, invalid = ivs, creationBytecode = None\<rparr>"

text \<open>
  Modelled from the spec: the declaration of \<^verbatim>\<open>Match\<close> is missing from the sources.
  A match carries \<open>{status: valid_runtime | valid_creation | false, message?, address,
  storageTimestamp?}\<close>. The controller only tests \<^verbatim>\<open>match.status\<close> for truthiness
  (\<^verbatim>\<open>if (match.status)\<close>, \<^verbatim>\<open>match.status || "error"\<close>): the falsy status of a
  non-match is \<open>None\<close>, a match kind is \<open>Some k\<close>.
\<close>

datatype match_kind = valid_runtime | valid_creation

record match =
  match_status :: "match_kind option"
  match_message :: "string option"
  match_address :: string
  match_storageTimestamp :: "nat option"

text \<open>
  Modelled from the spec: the declaration of the wrapper is missing from the sources.
  Status is one of \<open>pending | valid_runtime | valid_creation | false | error\<close>;
  address, chainId and creatorTxHash may be unset (\<^verbatim>\<open>undefined\<close>).
\<close>

datatype wrapper_status = St_pending | St_valid match_kind | St_false | St_error

record contractWrapper =
  contract :: checkedContract
  address :: "string option"
  chainId :: "string option"
  creatorTxHash :: "string option"
  status :: wrapper_status
  statusMessage :: "string option"
  storageTimestamp :: "nat option"

text \<open>
  The registry \<^verbatim>\<open>session.contractWrappers\<close> is a JavaScript object keyed by
  verification id: an association list in insertion order. It may be
  \<^verbatim>\<open>undefined\<close> (\<open>None\<close>). The file store holds path/content pairs.
\<close>

type_synonym registry = "(verification_id \<times> contractWrapper) list"

record session =
  inputFiles :: "(string \<times> string) list"
  contractWrappers :: "registry option"

text \<open>\<^verbatim>\<open>SendableContract\<close>, an element of \<^verbatim>\<open>req.body.contracts\<close>.\<close>

record sendableContract =
  rc_verificationId :: verification_id
  rc_address :: "string option"
  rc_chainId :: "string option"
  rc_creatorTxHash :: "string option"

text \<open>
  Wrappers are objects mutated in place. \<open>modify_wrapper reg id f\<close> is the registry
  after the object stored under \<open>id\<close> has been changed by \<open>f\<close>; keys and their order
  stay as they are.
\<close>

definition modify_wrapper ::
  "registry \<Rightarrow> verification_id \<Rightarrow> (contractWrapper \<Rightarrow> contractWrapper) \<Rightarrow> registry" where
  "modify_wrapper reg i f = map (\<lambda>(k, w). if k = i then (k, f w) else (k, w)) reg"

text \<open>
  \<^verbatim>\<open>verifiable[id] = contractWrapper\<close>: the batch is an object keyed by id whose
  values are references to the registry's own wrapper objects, so it is the list of keys
  placed, in insertion order; assigning an existing key keeps its place.
\<close>

definition place :: "verification_id list \<Rightarrow> verification_id \<Rightarrow> verification_id list" where
  "place batch i = (if i \<in> set batch then batch else batch @ [i])"

section \<open>Helpers of the controller that are not part of the sources\<close>

text \<open>
  Modelled from the spec: \<^verbatim>\<open>isVerifiable\<close> lives in
  \<^verbatim>\<open>VerificationController-util\<close>, which is missing. "A wrapper is verifiable iff
  missing is empty, invalid is empty, address is set, and chainId is set."
\<close>

definition isVerifiable :: "contractWrapper \<Rightarrow> bool" where
  "isVerifiable w \<longleftrightarrow>
     missing (contract w) = [] \<and> invalid (contract w) = [] \<and>
     address w \<noteq> None \<and> chainId w \<noteq> None"

text \<open>
  Modelled from the spec: the file store of \<^verbatim>\<open>saveFiles\<close> (in the missing
  \<^verbatim>\<open>VerificationController-util\<close>). The identity of a stored pair is its path;
  "re-submission with different content at the same path overwrites".
\<close>

fun store_file :: "string \<Rightarrow> string \<Rightarrow> (string \<times> string) list \<Rightarrow> (string \<times> string) list" where
  "store_file p c [] = [(p, c)]"
| "store_file p c ((q, d) # fs) = (if q = p then (p, c) # fs else (q, d) # store_file p c fs)"

text \<open>
  Modelled from the spec: the loop of \<^verbatim>\<open>saveFiles\<close> over the submitted pairs.
  "Re-submission with identical content is a no-op"; any other pair is stored and counted.
\<close>

fun save_each :: "pathContent list \<Rightarrow> nat \<times> (string \<times> string) list \<Rightarrow> nat \<times> (string \<times> string) list" where
  "save_each [] acc = acc"
| "save_each (pc # pcs) (n, fs) =
     (if map_of fs (path pc) = Some (content pc) then save_each pcs (n, fs)
      else save_each pcs (Suc n, store_file (path pc) (content pc) fs))"

text \<open>
  Modelled from the spec: \<^verbatim>\<open>saveFiles\<close> lives in
  \<^verbatim>\<open>VerificationController-util\<close>, which is missing. "Adds each path/content
  pair; returns the count of pairs whose content differs from what was already stored
  (net-new or changed)". Only the file store is written.
\<close>

definition saveFiles :: "pathContent list \<Rightarrow> session \<Rightarrow> nat \<times> session" where
  "saveFiles pathContents s =
     (case save_each pathContents (0, inputFiles s) of
        (n, fs) \<Rightarrow> (n, s\<lparr>inputFiles := fs\<rparr>))"

text \<open>
  What the block explorer returns for a chain and an address: compiler version, compiler
  input (its \<^verbatim>\<open>sources\<close>, path to content, and the rest as text) and contract name.
\<close>

record solcJsonInput =
  sources :: "(string \<times> string) list"
  settings :: string

record etherscanResult =
  compilerVersion :: string
  solcJsonInput :: solcJsonInput
  contractName :: string

record pathBuffer =
  pb_path :: string
  pb_buffer :: string

text \<open>
  The collaborators. Each is a function of its arguments that either fails with an error
  or returns; what they compute is outside the controller. The grouping step
  \<^verbatim>\<open>checkContractsInSession\<close> (also of the missing
  \<^verbatim>\<open>VerificationController-util\<close>) rewrites the session in place: it yields the
  session as it leaves it and the error it throws, if any. The last field is what the
  helper \<^verbatim>\<open>isVerifiable\<close> does when line 183 calls it on an object that is not a
  wrapper, a member of \<^verbatim>\<open>Object.prototype\<close> onto which the received contract's
  target has just been written: the error it throws, or its answer. The spec describes
  the helper on wrappers only.
\<close>

record collaborators =
  checkContractsInSession_ext :: "session \<Rightarrow> session \<times> error option"
  verifyDeployed ::
    "checkedContract \<Rightarrow> string option \<Rightarrow> string option \<Rightarrow> string option \<Rightarrow> error + match"
  verifyCreate2_ext ::
    "checkedContract \<Rightarrow> string \<Rightarrow> string \<Rightarrow> string \<Rightarrow> string option \<Rightarrow> error + match"
  storeMatch :: "checkedContract \<Rightarrow> match \<Rightarrow> error option"
  recompile :: "checkedContract \<Rightarrow> error + string"
  unusedFiles :: "session \<Rightarrow> string list"
  processRequestFromEtherscan :: "string \<Rightarrow> string \<Rightarrow> error + etherscanResult"
  getMetadataFromCompiler :: "string \<Rightarrow> solcJsonInput \<Rightarrow> string \<Rightarrow> error + string"
  getMappedSourcesFromJsonInput :: "solcJsonInput \<Rightarrow> (string \<times> string) list"
  stringToBase64 :: "string \<Rightarrow> string"
  bufferToString :: "string \<Rightarrow> string"
  addRemoteFile :: "string \<Rightarrow> error + pathBuffer list option"
  getBytecode :: "string \<Rightarrow> string \<Rightarrow> error + string"
  bytecodeDecode :: "string \<Rightarrow> error + string option"
  getIpfsGateway :: string
  performFetch :: "string \<Rightarrow> error + string option"
  extractFilesFromJSON :: "string \<Rightarrow> error + pathBuffer list option"
  checkFiles :: "pathBuffer list \<Rightarrow> error + checkedContract list"
  isValid_ignoreMissing :: "checkedContract \<Rightarrow> bool"
  stringifyInvalidAndMissing :: "checkedContract \<Rightarrow> string"
  isVerifiable_member :: "sendableContract \<Rightarrow> error + bool"

text \<open>
  The calls the claims speak about, as they appear in an endpoint's trace. The call of
  the orchestrator records its arguments: the keys of the batch and the session that
  holds the wrapper objects the batch refers to, as they are when the call is made.
  \<open>Write_inherited\<close> is the write of an address, a chainId and a creatorTxHash onto
  the member of \<^verbatim>\<open>Object.prototype\<close> of that name, an object outside the session.
\<close>

datatype event =
    Call_checkContractsInSession
  | Call_verifyContractsInSession "verification_id list" session
  | Call_verifyDeployed checkedContract "string option" "string option" "string option"
  | Call_verifyCreate2 checkedContract string string string "string option"
  | Call_recompile checkedContract
  | Call_storeMatch checkedContract match
  | Write_inherited verification_id "string option" "string option" "string option"

text \<open>
  Modelled from the spec: the wrapper-view of the session snapshot (built by
  \<^verbatim>\<open>getSessionJSON\<close>, in the missing \<^verbatim>\<open>VerificationController-util\<close>).
  "A wrapper-view exposes verification id, compilation status (missing/invalid lists),
  address/chain if set, and verification status/message."
\<close>

record wrapperView =
  view_verificationId :: verification_id
  view_missing :: "string list"
  view_invalid :: "string list"
  view_address :: "string option"
  view_chainId :: "string option"
  view_status :: wrapper_status
  view_statusMessage :: "string option"

text \<open>Modelled from the spec: the wrapper-view of one entry of the registry.\<close>

definition wrapper_view :: "verification_id \<times> contractWrapper \<Rightarrow> wrapperView" where
  "wrapper_view = (\<lambda>(i, w).
     \<lparr>view_verificationId = i,
      view_missing = missing (contract w), view_invalid = invalid (contract w),
      view_address = address w, view_chainId = chainId w,
      view_status = status w, view_statusMessage = statusMessage w\<rparr>)"

text \<open>Modelled from the spec: the shape of the session snapshot.\<close>

record sessionJSON =
  contracts :: "wrapperView list"
  unused :: "string list"

text \<open>The wrappers of a session; none when the registry is \<^verbatim>\<open>undefined\<close>.\<close>

definition registry_of :: "session \<Rightarrow> registry" where
  "registry_of s = (case contractWrappers s of None \<Rightarrow> [] | Some reg \<Rightarrow> reg)"

text \<open>
  Modelled from the spec: \<^verbatim>\<open>getSessionJSON\<close> lives in
  \<^verbatim>\<open>VerificationController-util\<close>, which is missing. "session snapshot =
  { contracts: [wrapper-view...], unused files: [path...] }", a view for every wrapper of
  the registry. Which files count as unused is left to a collaborator.
\<close>

definition getSessionJSON :: "collaborators \<Rightarrow> session \<Rightarrow> sessionJSON" where
  "getSessionJSON env s =
     \<lparr>contracts = map wrapper_view (registry_of s), unused = unusedFiles env s\<rparr>"

text \<open>
  Modelled from the spec: what \<^verbatim>\<open>verifyContractsInSession\<close> (in the missing
  \<^verbatim>\<open>VerificationController-util\<close>) does to one wrapper, steps 1 to 5 of the
  orchestrator. Build the request from the wrapper's contract, address, chain and
  creatorTxHash and delegate to the engine; on success set status to the match kind, set
  storageTimestamp and store the match; on a well-formed non-match set status
  \<open>false\<close> with the message; on any failure set status \<open>error\<close> with the failure's
  message. A store failure after a match is reflected as \<open>error\<close>.
\<close>

definition settle :: "collaborators \<Rightarrow> contractWrapper \<Rightarrow> contractWrapper" where
  "settle env w =
     (case verifyDeployed env (contract w) (chainId w) (address w) (creatorTxHash w) of
        Inl e \<Rightarrow> w\<lparr>status := St_error, statusMessage := Some (error_message e)\<rparr>
      | Inr m \<Rightarrow>
          (case match_status m of
             None \<Rightarrow> w\<lparr>status := St_false, statusMessage := match_message m\<rparr>
           | Some k \<Rightarrow>
               (case storeMatch env (contract w) m of
                  Some e \<Rightarrow> w\<lparr>status := St_error, statusMessage := Some (error_message e)\<rparr>
                | None \<Rightarrow>
                    w\<lparr>status := St_valid k, statusMessage := None,
                      storageTimestamp := match_storageTimestamp m\<rparr>)))"

text \<open>
  Modelled from the spec: the calls made for one wrapper, to the engine and, on a match,
  to the repository.
\<close>

definition settle_events :: "collaborators \<Rightarrow> contractWrapper \<Rightarrow> event list" where
  "settle_events env w =
     Call_verifyDeployed (contract w) (chainId w) (address w) (creatorTxHash w) #
     (case verifyDeployed env (contract w) (chainId w) (address w) (creatorTxHash w) of
        Inl e \<Rightarrow> []
      | Inr m \<Rightarrow>
          (case match_status m of
             None \<Rightarrow> []
           | Some k \<Rightarrow> [Call_storeMatch (contract w) m]))"

text \<open>
  Modelled from the spec: the orchestrator's loop, "for each wrapper, independently and
  without one failure blocking another". The wrappers are settled in place, in the order
  of the batch.
\<close>

fun verify_each ::
  "collaborators \<Rightarrow> verification_id list \<Rightarrow> registry \<times> event list \<Rightarrow> registry \<times> event list" where
  "verify_each env [] acc = acc"
| "verify_each env (i # batch) (reg, evs) =
     (case map_of reg i of
        None \<Rightarrow> verify_each env batch (reg, evs)
      | Some w \<Rightarrow>
          verify_each env batch (modify_wrapper reg i (settle env), evs @ settle_events env w))"

text \<open>
  Modelled from the spec: \<^verbatim>\<open>verifyContractsInSession(wrappers, session)\<close> lives in
  \<^verbatim>\<open>VerificationController-util\<close>, which is missing. It "mutates each wrapper's
  status in place; nothing is returned because the session itself is the result
  channel", and no wrapper is removed.
\<close>

definition verifyContractsInSession ::
  "collaborators \<Rightarrow> verification_id list \<Rightarrow> session \<Rightarrow> session \<times> event list" where
  "verifyContractsInSession env batch s =
     (case contractWrappers s of
        None \<Rightarrow> (s, [])
      | Some reg \<Rightarrow>
          (case verify_each env batch (reg, []) of
             (reg', evs) \<Rightarrow> (s\<lparr>contractWrappers := Some reg'\<rparr>, evs)))"

section \<open>Outcomes\<close>

datatype response_body =
    SessionData sessionJSON
  | MatchResult "match list"

record outcome =
  response :: "error + response_body"
  session_after :: session
  calls :: "event list"

definition throw :: "error \<Rightarrow> session \<Rightarrow> event list \<Rightarrow> outcome" where
  "throw e s evs = \<lparr>response = Inl e, session_after = s, calls = evs\<rparr>"

definition send :: "response_body \<Rightarrow> session \<Rightarrow> event list \<Rightarrow> outcome" where
  "send r s evs = \<lparr>response = Inr r, session_after = s, calls = evs\<rparr>"

text \<open>\<^verbatim>\<open>!session.contractWrappers || isEmpty(session.contractWrappers)\<close>\<close>

definition no_wrappers :: "session \<Rightarrow> bool" where
  "no_wrappers s = (case contractWrappers s of None \<Rightarrow> True | Some reg \<Rightarrow> reg = [])"

section \<open>The session verify endpoint\<close>

text \<open>
  Lines 179-182: a received contract overwrites the address, chainId and creatorTxHash
  of the wrapper it names.
\<close>

definition retarget :: "sendableContract \<Rightarrow> contractWrapper \<Rightarrow> contractWrapper" where
  "retarget rc w =
     w\<lparr>address := rc_address rc, chainId := rc_chainId rc, creatorTxHash := rc_creatorTxHash rc\<rparr>"

text \<open>
  \<^verbatim>\<open>session.contractWrappers[id]\<close> (line 177) on the registry, a plain object: the
  wrapper stored under the key, or else, for the names every object inherits from
  \<^verbatim>\<open>Object.prototype\<close>, the inherited member, which is truthy, or else
  \<^verbatim>\<open>undefined\<close>.
\<close>

definition object_prototype_names :: "verification_id list" where
  "object_prototype_names =
     [''__proto__'', ''constructor'', ''hasOwnProperty'', ''isPrototypeOf'',
      ''propertyIsEnumerable'', ''toLocaleString'', ''toString'', ''valueOf'',
      ''__defineGetter__'', ''__defineSetter__'', ''__lookupGetter__'', ''__lookupSetter__'']"

datatype lookup = Absent | Own contractWrapper | Inherited

definition lookup_wrapper :: "registry \<Rightarrow> verification_id \<Rightarrow> lookup" where
  "lookup_wrapper reg i =
     (case map_of reg i of
        Some w \<Rightarrow> Own w
      | None \<Rightarrow> if i \<in> set object_prototype_names then Inherited else Absent)"

text \<open>
  The state of the loop: the registry, the batch \<^verbatim>\<open>verifiable\<close>, and the writes
  made onto members of \<^verbatim>\<open>Object.prototype\<close>. One turn (lines 176-186) yields the
  new state and the error thrown, if any.
  \<^item> The id names a wrapper: lines 179-182 overwrite its address, chainId and
    creatorTxHash, and it is placed in the batch when it is then verifiable.
  \<^item> The id names nothing: the turn does nothing.
  \<^item> The id names an inherited member: lines 179-182 write onto that member, not onto
    the session, and line 183 calls \<^verbatim>\<open>isVerifiable\<close> on it. If the helper throws,
    so does the request. If it answers true, line 184 assigns the member to
    \<^verbatim>\<open>verifiable[id]\<close>, which makes a key of the batch unless the id is
    \<^verbatim>\<open>__proto__\<close> (that assignment sets the prototype of the batch object).
\<close>

type_synonym received = "registry \<times> verification_id list \<times> event list"

definition receive_contract ::
  "collaborators \<Rightarrow> sendableContract \<Rightarrow> received \<Rightarrow> received \<times> error option" where
  "receive_contract env rc = (\<lambda>(reg, verifiable, writes).
     (case lookup_wrapper reg (rc_verificationId rc) of
        Absent \<Rightarrow> ((reg, verifiable, writes), None)
      | Own w \<Rightarrow>
          ((modify_wrapper reg (rc_verificationId rc) (retarget rc),
            if isVerifiable (retarget rc w) then place verifiable (rc_verificationId rc)
            else verifiable,
            writes), None)
      | Inherited \<Rightarrow>
          (case isVerifiable_member env rc of
             Inl e \<Rightarrow>
               ((reg, verifiable,
                 writes @ [Write_inherited (rc_verificationId rc) (rc_address rc)
                             (rc_chainId rc) (rc_creatorTxHash rc)]), Some e)
           | Inr b \<Rightarrow>
               ((reg,
                 if b \<and> rc_verificationId rc \<noteq> ''__proto__''
                 then place verifiable (rc_verificationId rc) else verifiable,
                 writes @ [Write_inherited (rc_verificationId rc) (rc_address rc)
                             (rc_chainId rc) (rc_creatorTxHash rc)]), None))))"

text \<open>The loop over \<^verbatim>\<open>req.body.contracts\<close>: it stops at the first error thrown.\<close>

fun receive_contracts ::
  "collaborators \<Rightarrow> sendableContract list \<Rightarrow> received \<Rightarrow> received \<times> error option" where
  "receive_contracts env [] st = (st, None)"
| "receive_contracts env (rc # rcs) st =
     (case receive_contract env rc st of
        (st', Some e) \<Rightarrow> (st', Some e)
      | (st', None) \<Rightarrow> receive_contracts env rcs st')"

text \<open>
  \<^verbatim>\<open>verifyContractsInSessionEndpoint\<close>, lines 163-196. An error thrown in the loop
  ends the request with the wrappers as the turns before it left them; otherwise the
  batch goes to the orchestrator and the session is sent back.
\<close>

definition verifyContractsInSessionEndpoint ::
  "collaborators \<Rightarrow> sendableContract list \<Rightarrow> session \<Rightarrow> outcome" where
  "verifyContractsInSessionEndpoint env receivedContracts s =
     (if no_wrappers s then
        throw (BadRequestError ''There are currently no pending contracts.'') s []
      else
        (case receive_contracts env receivedContracts (registry_of s, [], []) of
           ((reg, verifiable, writes), Some e) \<Rightarrow>
             throw e (s\<lparr>contractWrappers := Some reg\<rparr>) writes
         | ((reg, verifiable, writes), None) \<Rightarrow>
             (case verifyContractsInSession env verifiable (s\<lparr>contractWrappers := Some reg\<rparr>) of
                (s', evs) \<Rightarrow>
                  send (SessionData (getSessionJSON env s')) s'
                    (writes @
                     Call_verifyContractsInSession verifiable (s\<lparr>contractWrappers := Some reg\<rparr>)
                       # evs))))"

section \<open>Adding files to a session\<close>

text \<open>JavaScript truthiness of an optional string: set and not empty.\<close>

definition truthy :: "string option \<Rightarrow> bool" where
  "truthy v = (case v of None \<Rightarrow> False | Some x \<Rightarrow> x \<noteq> [])"

text \<open>
  Lines 96-107 of \<^verbatim>\<open>addInputFilesEndpoint\<close>, and again lines 233-246 of
  \<^verbatim>\<open>addInputContractEndpoint\<close>: save the files; only if some file is new,
  re-group and hand the whole registry \<^verbatim>\<open>session.contractWrappers\<close> to the
  orchestrator; answer with the session.
\<close>

definition submit_files :: "collaborators \<Rightarrow> pathContent list \<Rightarrow> session \<Rightarrow> outcome" where
  "submit_files env pathContents s =
     (case saveFiles pathContents s of
        (newFilesCount, s1) \<Rightarrow>
          if newFilesCount \<noteq> 0 then
            (case checkContractsInSession_ext env s1 of
               (s2, Some e) \<Rightarrow> throw e s2 [Call_checkContractsInSession]
             | (s2, None) \<Rightarrow>
                 (case verifyContractsInSession env (map fst (registry_of s2)) s2 of
                    (s3, evs) \<Rightarrow>
                      send (SessionData (getSessionJSON env s3)) s3
                        (Call_checkContractsInSession #
                         Call_verifyContractsInSession (map fst (registry_of s2)) s2 # evs)))
          else send (SessionData (getSessionJSON env s1)) s1 [])"

text \<open>
  A request with files: what \<^verbatim>\<open>validateRequest\<close> throws, if anything, the
  \<^verbatim>\<open>url\<close> query parameter, and what \<^verbatim>\<open>extractFiles(req, true)\<close> yields.
\<close>

record filesRequest =
  fr_validation :: "error option"
  fr_query_url :: "string option"
  fr_extractFiles :: "error + pathBuffer list option"

text \<open>Lines 83-94 of \<^verbatim>\<open>addInputFilesEndpoint\<close>: the submitted path/content pairs.\<close>

definition input_pathContents :: "collaborators \<Rightarrow> filesRequest \<Rightarrow> error + pathContent list" where
  "input_pathContents env req =
     (case fr_validation req of
        Some e \<Rightarrow> Inl e
      | None \<Rightarrow>
          (case (case fr_query_url req of
                   None \<Rightarrow> fr_extractFiles req
                 | Some u \<Rightarrow> if u \<noteq> [] then addRemoteFile env u else fr_extractFiles req) of
             Inl e \<Rightarrow> Inl e
           | Inr None \<Rightarrow> Inl (ValidationError ''No files found'')
           | Inr (Some files) \<Rightarrow>
               Inr (map (\<lambda>pb. \<lparr>path = pb_path pb,
                                   content = bufferToString env (pb_buffer pb)\<rparr>) files)))"

definition addInputFilesEndpoint :: "collaborators \<Rightarrow> filesRequest \<Rightarrow> session \<Rightarrow> outcome" where
  "addInputFilesEndpoint env req s =
     (case input_pathContents env req of
        Inl e \<Rightarrow> throw e s []
      | Inr pathContents \<Rightarrow> submit_files env pathContents s)"

record contractRequest =
  cr_validation :: "error option"
  cr_address :: string
  cr_chainId :: string

text \<open>
  Lines 199-231 of \<^verbatim>\<open>addInputContractEndpoint\<close>: the deployed bytecode names the
  metadata on IPFS, which is fetched and becomes the one file \<^verbatim>\<open>metadata.json\<close>,
  its content in base64. The look-up of the chain in \<^verbatim>\<open>supportedChainsMap\<close> is
  part of \<open>getBytecode\<close> here.
\<close>

definition no_metadata_cid :: error where
  "no_metadata_cid = BadRequestError ''The contract doesn't have a metadata IPFS CID''"

definition fetch_metadata :: "collaborators \<Rightarrow> string \<Rightarrow> error + pathContent list" where
  "fetch_metadata env ipfsUrl =
     (case performFetch env ipfsUrl of
        Inl e \<Rightarrow> Inl e
      | Inr None \<Rightarrow> Inl (Failure (''Could not retrieve metadata from '' @ ipfsUrl))
      | Inr (Some retrievedMetadataText) \<Rightarrow>
          if retrievedMetadataText = [] then
            Inl (Failure (''Could not retrieve metadata from '' @ ipfsUrl))
          else
            Inr [\<lparr>path = ''metadata.json'',
                  content = stringToBase64 env retrievedMetadataText\<rparr>])"

definition retrieved_pathContents ::
  "collaborators \<Rightarrow> contractRequest \<Rightarrow> error + pathContent list" where
  "retrieved_pathContents env req =
     (case cr_validation req of
        Some e \<Rightarrow> Inl e
      | None \<Rightarrow>
          (case getBytecode env (cr_chainId req) (cr_address req) of
             Inl e \<Rightarrow> Inl e
           | Inr bytecode \<Rightarrow>
               (case bytecodeDecode env bytecode of
                  Inl e \<Rightarrow> Inl e
                | Inr None \<Rightarrow> Inl no_metadata_cid
                | Inr (Some metadataIpfsCid) \<Rightarrow>
                    if metadataIpfsCid = [] then Inl no_metadata_cid
                    else fetch_metadata env (getIpfsGateway env @ metadataIpfsCid))))"

definition addInputContractEndpoint ::
  "collaborators \<Rightarrow> contractRequest \<Rightarrow> session \<Rightarrow> outcome" where
  "addInputContractEndpoint env req s =
     (case retrieved_pathContents env req of
        Inl e \<Rightarrow> throw e s []
      | Inr pathContents \<Rightarrow> submit_files env pathContents s)"

section \<open>Block-explorer import\<close>

record legacyVerifyRequest =
  lv_validation :: "error option"
  lv_chain :: string
  lv_chainId :: string
  lv_address :: string

text \<open>\<^verbatim>\<open>verifyFromEtherscan\<close> (lines 249-280), without a session.\<close>

definition verifyFromEtherscan ::
  "collaborators \<Rightarrow> legacyVerifyRequest \<Rightarrow> session \<Rightarrow> outcome" where
  "verifyFromEtherscan env req s =
     (case lv_validation req of
        Some e \<Rightarrow> throw e s []
      | None \<Rightarrow>
          (case processRequestFromEtherscan env (lv_chain req) (lv_address req) of
             Inl e \<Rightarrow> throw e s []
           | Inr r \<Rightarrow>
               (case getMetadataFromCompiler env (compilerVersion r) (solcJsonInput r)
                       (contractName r) of
                  Inl e \<Rightarrow> throw e s []
                | Inr md \<Rightarrow>
                    (let checked = new_CheckedContract md
                           (getMappedSourcesFromJsonInput env (solcJsonInput r)) [] [];
                         call = Call_verifyDeployed checked (Some (lv_chain req))
                           (Some (lv_address req)) None
                     in (case verifyDeployed env checked (Some (lv_chain req))
                               (Some (lv_address req)) None of
                           Inl e \<Rightarrow> throw e s [call]
                         | Inr m \<Rightarrow>
                             (case storeMatch env checked m of
                                Some e \<Rightarrow> throw e s [call, Call_storeMatch checked m]
                              | None \<Rightarrow>
                                  send (MatchResult [m]) s [call, Call_storeMatch checked m]))))))"

text \<open>
  The files synthesised from the block explorer's answer (lines 301-312): every source
  of the compiler input, then \<^verbatim>\<open>metadata.json\<close>, contents in base64. The metadata
  is kept as its JSON text, so \<^verbatim>\<open>JSON.stringify(metadata)\<close> is that text.
\<close>

definition etherscan_pathContents ::
  "collaborators \<Rightarrow> etherscanResult \<Rightarrow> string \<Rightarrow> pathContent list" where
  "etherscan_pathContents env r md =
     map (\<lambda>(p, c). \<lparr>path = p, content = stringToBase64 env c\<rparr>) (sources (solcJsonInput r)) @
     [\<lparr>path = ''metadata.json'', content = stringToBase64 env md\<rparr>]"

text \<open>
  One turn of the loop over \<^verbatim>\<open>Object.keys(session.contractWrappers)\<close> (lines
  328-339): a wrapper with no (truthy) address gets the request's address and chain; a
  verifiable wrapper is placed in the batch.
\<close>

definition target_unset :: "string \<Rightarrow> string \<Rightarrow> contractWrapper \<Rightarrow> contractWrapper" where
  "target_unset addr chain w =
     (if \<not> truthy (address w) then w\<lparr>address := Some addr, chainId := Some chain\<rparr> else w)"

definition select_wrapper ::
  "string \<Rightarrow> string \<Rightarrow> verification_id \<Rightarrow> registry \<times> verification_id list \<Rightarrow>
   registry \<times> verification_id list" where
  "select_wrapper addr chain i = (\<lambda>(reg, verifiable).
     (case map_of reg i of
        None \<Rightarrow> (reg, verifiable)
      | Some w \<Rightarrow>
          (modify_wrapper reg i (target_unset addr chain),
           if isVerifiable (target_unset addr chain w) then place verifiable i
           else verifiable)))"

definition select_wrappers ::
  "string \<Rightarrow> string \<Rightarrow> registry \<Rightarrow> registry \<times> verification_id list" where
  "select_wrappers addr chain reg =
     foldl (\<lambda>a i. select_wrapper addr chain i a) (reg, []) (map fst reg)"

definition no_new_file :: error where
  "no_new_file = BadRequestError ''The contract didn't add any new file''"

text \<open>\<^verbatim>\<open>sessionVerifyFromEtherscan\<close>, lines 313-348: from \<^verbatim>\<open>saveFiles\<close> on.\<close>

definition import_into_session ::
  "collaborators \<Rightarrow> string \<Rightarrow> string \<Rightarrow> pathContent list \<Rightarrow> session \<Rightarrow> outcome" where
  "import_into_session env chain addr pathContents s =
     (case saveFiles pathContents s of
        (newFilesCount, s1) \<Rightarrow>
          if newFilesCount = 0 then throw no_new_file s1 []
          else
            (case checkContractsInSession_ext env s1 of
               (s2, Some e) \<Rightarrow> throw e s2 [Call_checkContractsInSession]
             | (s2, None) \<Rightarrow>
                 (case contractWrappers s2 of
                    None \<Rightarrow>
                      throw (BadRequestError
                               ''Unknown error during the Etherscan verification process'')
                        s2 [Call_checkContractsInSession]
                  | Some reg \<Rightarrow>
                      (case select_wrappers addr chain reg of
                         (reg', verifiable) \<Rightarrow>
                           (case verifyContractsInSession env verifiable
                                   (s2\<lparr>contractWrappers := Some reg'\<rparr>) of
                              (s3, evs) \<Rightarrow>
                                send (SessionData (getSessionJSON env s3)) s3
                                  (Call_checkContractsInSession #
                                   Call_verifyContractsInSession verifiable
                                     (s2\<lparr>contractWrappers := Some reg'\<rparr>) # evs))))))"

text \<open>\<^verbatim>\<open>sessionVerifyFromEtherscan\<close>, lines 282-312, then the above.\<close>

definition sessionVerifyFromEtherscan ::
  "collaborators \<Rightarrow> legacyVerifyRequest \<Rightarrow> session \<Rightarrow> outcome" where
  "sessionVerifyFromEtherscan env req s =
     (case lv_validation req of
        Some e \<Rightarrow> throw e s []
      | None \<Rightarrow>
          (case processRequestFromEtherscan env (lv_chainId req) (lv_address req) of
             Inl e \<Rightarrow> throw e s []
           | Inr r \<Rightarrow>
               (case getMetadataFromCompiler env (compilerVersion r) (solcJsonInput r)
                       (contractName r) of
                  Inl e \<Rightarrow> throw e s []
                | Inr md \<Rightarrow>
                    import_into_session env (lv_chainId req) (lv_address req)
                      (etherscan_pathContents env r md) s)))"

section \<open>CREATE2\<close>

record create2VerifyRequest =
  c2_validation :: "error option"
  c2_deployerAddress :: string
  c2_salt :: string
  c2_abiEncodedConstructorArguments :: "string option"
  c2_files :: string
  c2_create2Address :: string

text \<open>\<^verbatim>\<open>errors.join("\\n")\<close>\<close>

fun join_lines :: "string list \<Rightarrow> string" where
  "join_lines [] = []"
| "join_lines [x] = x"
| "join_lines (x # y # ys) = x @ [CHR 0x0A] @ join_lines (y # ys)"

text \<open>
  Lines 405-419 of \<^verbatim>\<open>verifyCreate2\<close>: the first checked contract goes to the
  engine, and the match is stored when its status is truthy. Of an empty list,
  \<^verbatim>\<open>checkedContracts[0]\<close> is \<^verbatim>\<open>undefined\<close>, which the engine cannot read.
\<close>

definition create2_match ::
  "collaborators \<Rightarrow> create2VerifyRequest \<Rightarrow> checkedContract list \<Rightarrow> session \<Rightarrow> outcome" where
  "create2_match env req checkedContracts s =
     (case checkedContracts of
        [] \<Rightarrow> throw (Failure ''TypeError'') s []
      | c # _ \<Rightarrow>
          (let call = Call_verifyCreate2 c (c2_deployerAddress req) (c2_salt req)
                 (c2_create2Address req) (c2_abiEncodedConstructorArguments req)
           in (case verifyCreate2_ext env c (c2_deployerAddress req) (c2_salt req)
                     (c2_create2Address req) (c2_abiEncodedConstructorArguments req) of
                 Inl e \<Rightarrow> throw e s [call]
               | Inr m \<Rightarrow>
                   (case match_status m of
                      None \<Rightarrow> send (MatchResult [m]) s [call]
                    | Some k \<Rightarrow>
                        (case storeMatch env c m of
                           Some e \<Rightarrow> throw e s [call, Call_storeMatch c m]
                         | None \<Rightarrow> send (MatchResult [m]) s [call, Call_storeMatch c m])))))"

text \<open>\<^verbatim>\<open>verifyCreate2\<close>, lines 369-403, then the above.\<close>

definition verifyCreate2 ::
  "collaborators \<Rightarrow> create2VerifyRequest \<Rightarrow> session \<Rightarrow> outcome" where
  "verifyCreate2 env req s =
     (case c2_validation req of
        Some e \<Rightarrow> throw e s []
      | None \<Rightarrow>
          (case extractFilesFromJSON env (c2_files req) of
             Inl e \<Rightarrow> throw e s []
           | Inr None \<Rightarrow> throw (BadRequestError ''No files found'') s []
           | Inr (Some files) \<Rightarrow>
               (case checkFiles env files of
                  Inl e \<Rightarrow> throw (BadRequestError (error_message e)) s []
                | Inr checkedContracts \<Rightarrow>
                    (let errors = map (stringifyInvalidAndMissing env)
                           (filter (\<lambda>c. \<not> isValid_ignoreMissing env c) checkedContracts)
                     in if errors \<noteq> [] then
                          throw (BadRequestError
                                   (''Invalid or missing sources in:'' @ [CHR 0x0A] @
                                    join_lines errors)) s []
                        else create2_match env req checkedContracts s))))"

record sessionCreate2VerifyRequest =
  sc2_deployerAddress :: string
  sc2_salt :: string
  sc2_abiEncodedConstructorArguments :: "string option"
  sc2_verificationId :: verification_id
  sc2_create2Address :: string

text \<open>Lines 456-460: what the session variant writes into the wrapper.\<close>

definition record_create2 :: "match \<Rightarrow> contractWrapper \<Rightarrow> contractWrapper" where
  "record_create2 m w =
     w\<lparr>status := (case match_status m of None \<Rightarrow> St_error | Some k \<Rightarrow> St_valid k),
       statusMessage := match_message m,
       storageTimestamp := match_storageTimestamp m,
       address := Some (match_address m),
       chainId := Some ''0''\<rparr>"

text \<open>
  \<^verbatim>\<open>sessionVerifyCreate2\<close>, lines 422-467. A verification id that names no wrapper
  makes \<^verbatim>\<open>contractWrapper.contract\<close> a TypeError.
\<close>

definition sessionVerifyCreate2 ::
  "collaborators \<Rightarrow> sessionCreate2VerifyRequest \<Rightarrow> session \<Rightarrow> outcome" where
  "sessionVerifyCreate2 env req s =
     (if no_wrappers s then
        throw (BadRequestError ''There are currently no pending contracts.'') s []
      else
        (case map_of (registry_of s) (sc2_verificationId req) of
           None \<Rightarrow> throw (Failure ''TypeError'') s []
         | Some w \<Rightarrow>
             (let c = new_CheckedContract (metadata (contract w)) (solidity (contract w))
                        (missing (contract w)) (invalid (contract w));
                  call = Call_verifyCreate2 c (sc2_deployerAddress req) (sc2_salt req)
                           (sc2_create2Address req) (sc2_abiEncodedConstructorArguments req)
              in (case verifyCreate2_ext env c (sc2_deployerAddress req) (sc2_salt req)
                        (sc2_create2Address req) (sc2_abiEncodedConstructorArguments req) of
                    Inl e \<Rightarrow> throw e s [call]
                  | Inr m \<Rightarrow>
                      (let s1 = s\<lparr>contractWrappers :=
                                    Some (modify_wrapper (registry_of s) (sc2_verificationId req)
                                            (record_create2 m))\<rparr>
                       in (case match_status m of
                             None \<Rightarrow> send (SessionData (getSessionJSON env s1)) s1 [call]
                           | Some k \<Rightarrow>
                               (case storeMatch env c m of
                                  Some e \<Rightarrow> throw e s1 [call, Call_storeMatch c m]
                                | None \<Rightarrow>
                                    send (SessionData (getSessionJSON env s1)) s1
                                      [call, Call_storeMatch c m])))))))"

text \<open>\<^verbatim>\<open>sessionPrecompileContract\<close>, lines 469-494.\<close>

definition refresh_bytecode :: "string \<Rightarrow> contractWrapper \<Rightarrow> contractWrapper" where
  "refresh_bytecode b w = w\<lparr>contract := (contract w)\<lparr>creationBytecode := Some b\<rparr>\<rparr>"

definition sessionPrecompileContract ::
  "collaborators \<Rightarrow> verification_id \<Rightarrow> session \<Rightarrow> outcome" where
  "sessionPrecompileContract env verificationId s =
     (if no_wrappers s then
        throw (BadRequestError ''There are currently no pending contracts.'') s []
      else
        (case map_of (registry_of s) verificationId of
           None \<Rightarrow> throw (Failure ''TypeError'') s []
         | Some w \<Rightarrow>
             (let checked = new_CheckedContract (metadata (contract w)) (solidity (contract w))
                        (missing (contract w)) (invalid (contract w))
              in (case recompile env checked of
                    Inl e \<Rightarrow> throw e s [Call_recompile checked]
                  | Inr b \<Rightarrow>
                      (let s1 = s\<lparr>contractWrappers :=
                                    Some (modify_wrapper (registry_of s) verificationId
                                            (refresh_bytecode b))\<rparr>
                       in send (SessionData (getSessionJSON env s1)) s1
                            [Call_recompile checked])))))"

section \<open>Auxiliary notions for the properties\<close>

text \<open>The calls the orchestrator itself makes: to the engine and to the repository.\<close>

fun engine_call :: "event \<Rightarrow> bool" where
  "engine_call (Call_verifyDeployed c a b d) = True"
| "engine_call (Call_storeMatch c m) = True"
| "engine_call e = False"

text \<open>The writes the loop of the session verify endpoint makes outside the session.\<close>

fun prototype_write :: "event \<Rightarrow> bool" where
  "prototype_write (Write_inherited i a c t) = True"
| "prototype_write e = False"

text \<open>Every wrapper the batch refers to is in the registry and verifiable.\<close>

definition batch_ok :: "registry \<times> verification_id list \<Rightarrow> bool" where
  "batch_ok = (\<lambda>(reg, b). \<forall>i\<in>set b. \<exists>w. map_of reg i = Some w \<and> isVerifiable w)"

section \<open>A concrete session and concrete collaborators\<close>

text \<open>
  A session with a complete wrapper \<open>a\<close> and a wrapper \<open>b\<close> that misses a source,
  and collaborators whose engine fails at address \<open>0xdead\<close>, finds no match at
  \<open>0xbad\<close> and matches elsewhere.
\<close>

definition contract_ex :: checkedContract where
  "contract_ex = \<lparr>metadata = ''{}'', solidity = [(''A.sol'', ''contract A {}'')],
     missing = [], invalid = [], creationBytecode = None\<rparr>"

definition pending_ex :: "checkedContract \<Rightarrow> contractWrapper" where
  "pending_ex c = \<lparr>contract = c, address = None, chainId = None, creatorTxHash = None,
     status = St_pending, statusMessage = None, storageTimestamp = None\<rparr>"

definition session_ex :: session where
  "session_ex = \<lparr>inputFiles = [(''A.sol'', ''contract A {}'')],
     contractWrappers = Some [(''a'', pending_ex contract_ex),
                              (''b'', pending_ex (contract_ex\<lparr>missing := [''B.sol'']\<rparr>))]\<rparr>"

definition match_ex :: "match_kind option \<Rightarrow> string \<Rightarrow> match" where
  "match_ex st a = \<lparr>match_status = st, match_message = None, match_address = a,
     match_storageTimestamp = None\<rparr>"

definition env_ex :: collaborators where
  "env_ex = \<lparr>
     checkContractsInSession_ext = (\<lambda>s. (s, None)),
     verifyDeployed = (\<lambda>c chain addr tx.
        if addr = Some ''0xdead'' then Inl (Failure ''network error'')
        else if addr = Some ''0xbad'' then Inr (match_ex None ''0xbad'')
        else Inr (match_ex (Some valid_runtime) (case addr of Some a \<Rightarrow> a | None \<Rightarrow> []))),
     verifyCreate2_ext = (\<lambda>c deployer salt claimed args.
        if claimed = ''0xc2'' then Inr (match_ex (Some valid_creation) ''0xc2'')
        else Inr (match_ex None ''0xc2'')),
     storeMatch = (\<lambda>c m. None),
     recompile = (\<lambda>c. Inr ''0x6080''),
     unusedFiles = (\<lambda>s. []),
     processRequestFromEtherscan = (\<lambda>chain addr.
        Inr \<lparr>compilerVersion = ''0.8.20'',
             solcJsonInput = \<lparr>sources = [(''C.sol'', ''contract C {}'')], settings = ''{}''\<rparr>,
             contractName = ''C''\<rparr>),
     getMetadataFromCompiler = (\<lambda>v i n. Inr ''{}''),
     getMappedSourcesFromJsonInput = sources,
     stringToBase64 = (\<lambda>x. x),
     bufferToString = (\<lambda>x. x),
     addRemoteFile = (\<lambda>u. Inr None),
     getBytecode = (\<lambda>chain addr. Inr ''0x00''),
     bytecodeDecode = (\<lambda>b. Inr (Some ''Qm'')),
     getIpfsGateway = ''ipfs/'',
     performFetch = (\<lambda>u. Inr (Some ''{}'')),
     extractFilesFromJSON = (\<lambda>f. Inr (Some [\<lparr>pb_path = ''A.sol'', pb_buffer = f\<rparr>])),
     checkFiles = (\<lambda>fs. Inr [contract_ex]),
     isValid_ignoreMissing = (\<lambda>c. invalid c = []),
     stringifyInvalidAndMissing = metadata,
     isVerifiable_member = (\<lambda>rc. Inl (Failure ''TypeError''))\<rparr>"

definition received_ex :: "sendableContract list" where
  "received_ex =
     [\<lparr>rc_verificationId = ''a'', rc_address = Some ''0x01'', rc_chainId = Some ''1'',
       rc_creatorTxHash = None\<rparr>,
      \<lparr>rc_verificationId = ''b'', rc_address = Some ''0x02'', rc_chainId = Some ''1'',
       rc_creatorTxHash = None\<rparr>]"


definition targeted_ex :: session where
  "targeted_ex = \<lparr>inputFiles = [(''A.sol'', ''contract A {}'')],
     contractWrappers = Some
       [(''a'', (pending_ex contract_ex)\<lparr>address := Some ''0x01'', chainId := Some ''1''\<rparr>),
        (''b'', (pending_ex (contract_ex\<lparr>missing := [''B.sol'']\<rparr>))
                  \<lparr>address := Some ''0x02'', chainId := Some ''1''\<rparr>)]\<rparr>"

definition import_request_ex :: legacyVerifyRequest where
  "import_request_ex =
     \<lparr>lv_validation = None, lv_chain = ''1'', lv_chainId = ''1'', lv_address = ''0x03''\<rparr>"

definition imported_ex :: session where
  "imported_ex = \<lparr>inputFiles = [(''A.sol'', ''contract A {}''), (''C.sol'', ''contract C {}''),
                                   (''metadata.json'', ''{}'')],
     contractWrappers = Some
       [(''a'', (pending_ex contract_ex)\<lparr>address := Some ''0x03'', chainId := Some ''1''\<rparr>),
        (''b'', (pending_ex (contract_ex\<lparr>missing := [''B.sol'']\<rparr>))
                  \<lparr>address := Some ''0x03'', chainId := Some ''1''\<rparr>)]\<rparr>"

definition files_request_ex :: filesRequest where
  "files_request_ex = \<lparr>fr_validation = None, fr_query_url = None,
     fr_extractFiles = Inr (Some [\<lparr>pb_path = ''A.sol'', pb_buffer = ''contract A {}''\<rparr>])\<rparr>"

definition contract_request_ex :: contractRequest where
  "contract_request_ex = \<lparr>cr_validation = None, cr_address = ''0x01'', cr_chainId = ''1''\<rparr>"

definition nonmatch_request_ex :: legacyVerifyRequest where
  "nonmatch_request_ex =
     \<lparr>lv_validation = None, lv_chain = ''1'', lv_chainId = ''1'', lv_address = ''0xbad''\<rparr>"

definition create2_request_ex :: "string \<Rightarrow> create2VerifyRequest" where
  "create2_request_ex claimed =
     \<lparr>c2_validation = None, c2_deployerAddress = ''0xd'', c2_salt = ''0x01'',
      c2_abiEncodedConstructorArguments = None, c2_files = ''{}'',
      c2_create2Address = claimed\<rparr>"

definition session_create2_request_ex :: "string \<Rightarrow> sessionCreate2VerifyRequest" where
  "session_create2_request_ex claimed =
     \<lparr>sc2_deployerAddress = ''0xd'', sc2_salt = ''0x01'',
      sc2_abiEncodedConstructorArguments = None, sc2_verificationId = ''a'',
      sc2_create2Address = claimed\<rparr>"

definition imported_contract_ex :: checkedContract where
  "imported_contract_ex = \<lparr>metadata = ''{}'', solidity = [(''C.sol'', ''contract C {}'')],
     missing = [], invalid = [], creationBytecode = None\<rparr>"

text \<open>
  The last received contract that names a wrapper, and the wrapper as the loop of the
  session verify endpoint leaves it.
\<close>

definition last_named :: "verification_id \<Rightarrow> sendableContract list \<Rightarrow> sendableContract option" where
  "last_named i rcs = find (\<lambda>rc. rc_verificationId rc = i) (rev rcs)"

definition retargeted :: "verification_id \<Rightarrow> sendableContract list \<Rightarrow> contractWrapper \<Rightarrow> contractWrapper" where
  "retargeted i rcs w = (case last_named i rcs of None \<Rightarrow> w | Some rc \<Rightarrow> retarget rc w)"

definition batch_session_ex :: session where
  "batch_session_ex = \<lparr>inputFiles = [(''A.sol'', ''contract A {}'')],
     contractWrappers = Some [(''a'', pending_ex contract_ex), (''c'', pending_ex contract_ex)]\<rparr>"

definition batch_received_ex :: "sendableContract list" where
  "batch_received_ex =
     [\<lparr>rc_verificationId = ''a'', rc_address = Some ''0xdead'', rc_chainId = Some ''1'',
       rc_creatorTxHash = None\<rparr>,
      \<lparr>rc_verificationId = ''c'', rc_address = Some ''0x01'', rc_chainId = Some ''1'',
       rc_creatorTxHash = None\<rparr>]"

definition batch_targeted_ex :: session where
  "batch_targeted_ex = \<lparr>inputFiles = [(''A.sol'', ''contract A {}'')],
     contractWrappers = Some
       [(''a'', (pending_ex contract_ex)\<lparr>address := Some ''0xdead'', chainId := Some ''1''\<rparr>),
        (''c'', (pending_ex contract_ex)\<lparr>address := Some ''0x01'', chainId := Some ''1''\<rparr>)]\<rparr>"




definition new_file_request_ex :: filesRequest where
  "new_file_request_ex = \<lparr>fr_validation = None, fr_query_url = None,
     fr_extractFiles = Inr (Some [\<lparr>pb_path = ''B.sol'', pb_buffer = ''contract B {}''\<rparr>])\<rparr>"

definition uploaded_ex :: session where
  "uploaded_ex = \<lparr>inputFiles = [(''A.sol'', ''contract A {}''), (''B.sol'', ''contract B {}'')],
     contractWrappers = Some [(''a'', pending_ex contract_ex),
                              (''b'', pending_ex (contract_ex\<lparr>missing := [''B.sol'']\<rparr>))]\<rparr>"

definition fetched_ex :: session where
  "fetched_ex = \<lparr>inputFiles = [(''A.sol'', ''contract A {}''), (''metadata.json'', ''{}'')],
     contractWrappers = Some [(''a'', pending_ex contract_ex),
                              (''b'', pending_ex (contract_ex\<lparr>missing := [''B.sol'']\<rparr>))]\<rparr>"

definition twice_ex :: "sendableContract list" where
  "twice_ex =
     [\<lparr>rc_verificationId = ''a'', rc_address = Some ''0x01'', rc_chainId = Some ''1'',
       rc_creatorTxHash = None\<rparr>,
      \<lparr>rc_verificationId = ''a'', rc_address = None, rc_chainId = None,
       rc_creatorTxHash = None\<rparr>]"

section \<open>Properties\<close>

subsection \<open>The registry and the orchestrator\<close>

lemmas verify_endpoint_defs =
  verifyContractsInSessionEndpoint_def no_wrappers_def registry_of_def receive_contract_def
  lookup_wrapper_def object_prototype_names_def retarget_def isVerifiable_def
  modify_wrapper_def place_def verifyContractsInSession_def settle_def settle_events_def
  send_def throw_def getSessionJSON_def wrapper_view_def

lemma map_of_modify_wrapper:
  "map_of (modify_wrapper reg i f) k = (if k = i then map_option f (map_of reg i) else map_of reg k)"
  by (induction reg) (auto simp: modify_wrapper_def)

lemma keys_modify_wrapper: "map fst (modify_wrapper reg i f) = map fst reg"
  by (induction reg) (auto simp: modify_wrapper_def)

lemma settle_events_engine: "\<forall>e\<in>set (settle_events env w). engine_call e"
  by (auto simp: settle_events_def split: sum.splits option.splits)

lemma verify_each_events:
  "\<forall>e\<in>set evs. engine_call e \<Longrightarrow> \<forall>e\<in>set (snd (verify_each env batch (reg, evs))). engine_call e"
proof (induction batch arbitrary: reg evs)
  case Nil
  then show ?case by simp
next
  case (Cons i batch)
  show ?case
  proof (cases "map_of reg i")
    case None
    then show ?thesis using Cons.IH[OF Cons.prems, of reg] by simp
  next
    case (Some w)
    have "\<forall>e\<in>set (evs @ settle_events env w). engine_call e"
      using Cons.prems settle_events_engine[of env w] by auto
    from Cons.IH[OF this, of "modify_wrapper reg i (settle env)"] Some
    show ?thesis by simp
  qed
qed

lemma orchestrator_events:
  "\<forall>e\<in>set (snd (verifyContractsInSession env batch s)). engine_call e"
proof (cases "contractWrappers s")
  case None
  then show ?thesis by (simp add: verifyContractsInSession_def)
next
  case (Some reg)
  have "\<forall>e\<in>set (snd (verify_each env batch (reg, []))). engine_call e"
    by (rule verify_each_events) simp
  with Some show ?thesis
    by (simp add: verifyContractsInSession_def split: prod.splits)
qed


subsection \<open>Adding files that are already stored\<close>

lemma save_each_mono: "save_each pcs (n, fs) = (m, fs') \<Longrightarrow> n \<le> m"
proof (induction pcs arbitrary: n fs)
  case Nil
  then show ?case by simp
next
  case (Cons pc pcs)
  show ?case
  proof (cases "map_of fs (path pc) = Some (content pc)")
    case True
    with Cons.prems have "save_each pcs (n, fs) = (m, fs')" by simp
    then show ?thesis by (rule Cons.IH)
  next
    case False
    with Cons.prems have "save_each pcs (Suc n, store_file (path pc) (content pc) fs) = (m, fs')"
      by simp
    then have "Suc n \<le> m" by (rule Cons.IH)
    then show ?thesis by simp
  qed
qed

lemma save_each_none_new:
  "save_each pcs (n, fs) = (n, fs') \<Longrightarrow>
   fs' = fs \<and> (\<forall>pc\<in>set pcs. map_of fs (path pc) = Some (content pc))"
proof (induction pcs arbitrary: fs)
  case Nil
  then show ?case by simp
next
  case (Cons pc pcs)
  show ?case
  proof (cases "map_of fs (path pc) = Some (content pc)")
    case True
    with Cons.prems have "save_each pcs (n, fs) = (n, fs')" by simp
    from Cons.IH[OF this] True show ?thesis by simp
  next
    case False
    with Cons.prems have "save_each pcs (Suc n, store_file (path pc) (content pc) fs) = (n, fs')"
      by simp
    then have "Suc n \<le> n" by (rule save_each_mono)
    then show ?thesis by simp
  qed
qed

lemma save_each_identical:
  "\<forall>pc\<in>set pcs. map_of fs (path pc) = Some (content pc) \<Longrightarrow> save_each pcs (n, fs) = (n, fs)"
  by (induction pcs) auto

lemma saveFiles_zero:
  "fst (saveFiles pcs s) = 0 \<longleftrightarrow>
   (\<forall>pc\<in>set pcs. map_of (inputFiles s) (path pc) = Some (content pc))"
proof
  assume z: "fst (saveFiles pcs s) = 0"
  obtain m fs' where r: "save_each pcs (0, inputFiles s) = (m, fs')"
    by (cases "save_each pcs (0, inputFiles s)")
  with z have "m = 0" by (simp add: saveFiles_def)
  with r save_each_none_new[of pcs 0 "inputFiles s" fs']
  show "\<forall>pc\<in>set pcs. map_of (inputFiles s) (path pc) = Some (content pc)" by simp
next
  assume "\<forall>pc\<in>set pcs. map_of (inputFiles s) (path pc) = Some (content pc)"
  then show "fst (saveFiles pcs s) = 0"
    by (simp add: saveFiles_def save_each_identical)
qed

lemma saveFiles_zero_same: "fst (saveFiles pcs s) = 0 \<Longrightarrow> saveFiles pcs s = (0, s)"
proof -
  assume z: "fst (saveFiles pcs s) = 0"
  obtain m fs' where r: "save_each pcs (0, inputFiles s) = (m, fs')"
    by (cases "save_each pcs (0, inputFiles s)")
  with z have m: "m = 0" by (simp add: saveFiles_def)
  with r save_each_none_new[of pcs 0 "inputFiles s" fs'] have "fs' = inputFiles s" by simp
  with r m show ?thesis by (simp add: saveFiles_def)
qed

lemma saveFiles_registry: "contractWrappers (snd (saveFiles pcs s)) = contractWrappers s"
  by (simp add: saveFiles_def split: prod.splits)

lemma submit_files_no_new:
  "fst (saveFiles pcs s) = 0 \<Longrightarrow>
   submit_files env pcs s = send (SessionData (getSessionJSON env s)) s []"
  by (simp add: submit_files_def saveFiles_zero_same)

text \<open>
  Claim C2. When \<open>saveFiles\<close> counts no new file for the submitted path/content
  pairs, which is exactly when every pair is already stored with the same content, the
  file upload endpoint and the contract input endpoint call neither the grouping step nor
  the orchestrator (they call no collaborator at all), leave the session, and with it the
  wrapper registry, as it was, and answer with the session's snapshot.
\<close>

theorem no_new_files_no_regrouping:
  "(input_pathContents env req = Inr pcs \<and> fst (saveFiles pcs s) = 0 \<longrightarrow>
      calls (addInputFilesEndpoint env req s) = [] \<and>
      session_after (addInputFilesEndpoint env req s) = s \<and>
      response (addInputFilesEndpoint env req s) = Inr (SessionData (getSessionJSON env s))) \<and>
   (retrieved_pathContents env creq = Inr pcs' \<and> fst (saveFiles pcs' s') = 0 \<longrightarrow>
      calls (addInputContractEndpoint env creq s') = [] \<and>
      session_after (addInputContractEndpoint env creq s') = s' \<and>
      response (addInputContractEndpoint env creq s') =
        Inr (SessionData (getSessionJSON env s'))) \<and>
   (fst (saveFiles pcs s) = 0 \<longleftrightarrow>
      (\<forall>pc\<in>set pcs. map_of (inputFiles s) (path pc) = Some (content pc)))"
  by (simp add: addInputFilesEndpoint_def addInputContractEndpoint_def submit_files_no_new
      send_def saveFiles_zero)

theorem no_new_files_no_regrouping_witness:
  "input_pathContents env_ex files_request_ex = Inr [\<lparr>path = ''A.sol'', content = ''contract A {}''\<rparr>] \<and>
   fst (saveFiles [\<lparr>path = ''A.sol'', content = ''contract A {}''\<rparr>] session_ex) = 0 \<and>
   calls (addInputFilesEndpoint env_ex files_request_ex session_ex) = [] \<and>
   session_after (addInputFilesEndpoint env_ex files_request_ex session_ex) = session_ex \<and>
   retrieved_pathContents env_ex contract_request_ex = Inr [\<lparr>path = ''metadata.json'', content = ''{}''\<rparr>] \<and>
   fst (saveFiles [\<lparr>path = ''metadata.json'', content = ''{}''\<rparr>] imported_ex) = 0 \<and>
   calls (addInputContractEndpoint env_ex contract_request_ex imported_ex) = [] \<and>
   session_after (addInputContractEndpoint env_ex contract_request_ex imported_ex) = imported_ex"
proof -
  have h1: "input_pathContents env_ex files_request_ex = Inr [\<lparr>path = ''A.sol'', content = ''contract A {}''\<rparr>]"
    by (simp add: input_pathContents_def files_request_ex_def env_ex_def)
  have h2: "fst (saveFiles [\<lparr>path = ''A.sol'', content = ''contract A {}''\<rparr>] session_ex) = 0"
    by (simp add: saveFiles_def session_ex_def)
  have h3: "retrieved_pathContents env_ex contract_request_ex = Inr [\<lparr>path = ''metadata.json'', content = ''{}''\<rparr>]"
    by (simp add: retrieved_pathContents_def fetch_metadata_def contract_request_ex_def env_ex_def)
  have h4: "fst (saveFiles [\<lparr>path = ''metadata.json'', content = ''{}''\<rparr>] imported_ex) = 0"
    by (simp add: saveFiles_def imported_ex_def)
  from no_new_files_no_regrouping
         [where env = env_ex and req = files_request_ex and s = session_ex
            and pcs = "[\<lparr>path = ''A.sol'', content = ''contract A {}''\<rparr>]"
            and creq = contract_request_ex and s' = imported_ex
            and pcs' = "[\<lparr>path = ''metadata.json'', content = ''{}''\<rparr>]"]
       h1 h2 h3 h4
  show ?thesis by blast
qed

subsection \<open>Block-explorer import into a session\<close>

text \<open>
  Claim C6. In the session block-explorer import, when saving the synthesised source and
  metadata files counts no new file, the request fails with the BadRequestError
  "The contract didn't add any new file": no success response is sent, neither the grouping
  step nor the orchestrator has been called, and the session is as it was.
\<close>

theorem import_without_new_file_fails:
  "lv_validation req = None \<and>
   processRequestFromEtherscan env (lv_chainId req) (lv_address req) = Inr r \<and>
   getMetadataFromCompiler env (compilerVersion r) (solcJsonInput r) (contractName r) = Inr md \<and>
   fst (saveFiles (etherscan_pathContents env r md) s) = 0 \<longrightarrow>
     response (sessionVerifyFromEtherscan env req s) =
       Inl (BadRequestError ''The contract didn't add any new file'') \<and>
     calls (sessionVerifyFromEtherscan env req s) = [] \<and>
     session_after (sessionVerifyFromEtherscan env req s) = s"
  by (auto simp: sessionVerifyFromEtherscan_def import_into_session_def saveFiles_zero_same
      throw_def no_new_file_def)

theorem import_without_new_file_fails_witness:
  "lv_validation import_request_ex = None \<and>
   processRequestFromEtherscan env_ex (lv_chainId import_request_ex) (lv_address import_request_ex) =
     Inr \<lparr>compilerVersion = ''0.8.20'',
          solcJsonInput = \<lparr>sources = [(''C.sol'', ''contract C {}'')], settings = ''{}''\<rparr>,
          contractName = ''C''\<rparr> \<and>
   response (sessionVerifyFromEtherscan env_ex import_request_ex imported_ex) =
     Inl (BadRequestError ''The contract didn't add any new file'') \<and>
   calls (sessionVerifyFromEtherscan env_ex import_request_ex imported_ex) = []"
proof -
  let ?r = "\<lparr>compilerVersion = ''0.8.20'',
          solcJsonInput = \<lparr>sources = [(''C.sol'', ''contract C {}'')], settings = ''{}''\<rparr>,
          contractName = ''C''\<rparr>"
  have h1: "lv_validation import_request_ex = None"
    by (simp add: import_request_ex_def)
  have h2: "processRequestFromEtherscan env_ex (lv_chainId import_request_ex)
              (lv_address import_request_ex) = Inr ?r"
    by (simp add: env_ex_def)
  have h3: "getMetadataFromCompiler env_ex (compilerVersion ?r) (solcJsonInput ?r) (contractName ?r)
              = Inr ''{}''"
    by (simp add: env_ex_def)
  have h4: "fst (saveFiles (etherscan_pathContents env_ex ?r ''{}'') imported_ex) = 0"
    by (simp add: saveFiles_def etherscan_pathContents_def imported_ex_def env_ex_def)
  from import_without_new_file_fails
         [where req = import_request_ex and env = env_ex and r = ?r and md = "''{}''"
            and s = imported_ex]
       h1 h2 h3 h4
  show ?thesis by blast
qed

subsection \<open>CREATE2: only a match is stored\<close>

lemma create2_match_stores:
  "Call_storeMatch c m \<in> set (calls (create2_match env req cs s)) \<Longrightarrow>
   match_status m \<noteq> None \<and>
   verifyCreate2_ext env c (c2_deployerAddress req) (c2_salt req) (c2_create2Address req)
     (c2_abiEncodedConstructorArguments req) = Inr m"
  by (auto simp: create2_match_def throw_def send_def Let_def
      split: list.splits sum.splits option.splits)

lemma verifyCreate2_stores:
  "Call_storeMatch c m \<in> set (calls (verifyCreate2 env req s)) \<Longrightarrow>
   match_status m \<noteq> None \<and>
   verifyCreate2_ext env c (c2_deployerAddress req) (c2_salt req) (c2_create2Address req)
     (c2_abiEncodedConstructorArguments req) = Inr m"
  using create2_match_stores[of c m env req _ s]
  by (auto simp: verifyCreate2_def throw_def Let_def split: sum.splits option.splits if_splits)

lemma sessionVerifyCreate2_stores:
  "Call_storeMatch c m \<in> set (calls (sessionVerifyCreate2 env req s)) \<Longrightarrow>
   match_status m \<noteq> None \<and>
   verifyCreate2_ext env c (sc2_deployerAddress req) (sc2_salt req) (sc2_create2Address req)
     (sc2_abiEncodedConstructorArguments req) = Inr m"
  by (auto simp: sessionVerifyCreate2_def throw_def send_def Let_def
      split: sum.splits option.splits if_splits)

text \<open>
  Claim C4. In the CREATE2 pathway, with and without a session, when the engine's
  comparison of the claimed address with the recomputed one yields a mismatch (a match
  whose status is falsy), \<open>storeMatch\<close> is not called: the only call of the request
  is the one to the engine. Whatever the request, a match handed to \<open>storeMatch\<close> has
  a truthy status.
\<close>

theorem create2_mismatch_not_stored:
  "(c2_validation req = None \<and>
    extractFilesFromJSON env (c2_files req) = Inr (Some files) \<and>
    checkFiles env files = Inr (c # cs) \<and>
    (\<forall>x\<in>set (c # cs). isValid_ignoreMissing env x) \<and>
    verifyCreate2_ext env c (c2_deployerAddress req) (c2_salt req) (c2_create2Address req)
      (c2_abiEncodedConstructorArguments req) = Inr m \<and>
    match_status m = None \<longrightarrow>
      calls (verifyCreate2 env req s) =
        [Call_verifyCreate2 c (c2_deployerAddress req) (c2_salt req) (c2_create2Address req)
           (c2_abiEncodedConstructorArguments req)] \<and>
      response (verifyCreate2 env req s) = Inr (MatchResult [m]) \<and>
      session_after (verifyCreate2 env req s) = s) \<and>
   (\<not> no_wrappers s' \<and>
    map_of (registry_of s') (sc2_verificationId sreq) = Some w \<and>
    verifyCreate2_ext env
      (new_CheckedContract (metadata (contract w)) (solidity (contract w))
         (missing (contract w)) (invalid (contract w)))
      (sc2_deployerAddress sreq) (sc2_salt sreq) (sc2_create2Address sreq)
      (sc2_abiEncodedConstructorArguments sreq) = Inr m' \<and>
    match_status m' = None \<longrightarrow>
      calls (sessionVerifyCreate2 env sreq s') =
        [Call_verifyCreate2
           (new_CheckedContract (metadata (contract w)) (solidity (contract w))
              (missing (contract w)) (invalid (contract w)))
           (sc2_deployerAddress sreq) (sc2_salt sreq) (sc2_create2Address sreq)
           (sc2_abiEncodedConstructorArguments sreq)]) \<and>
   (Call_storeMatch c1 m1 \<in> set (calls (verifyCreate2 env req1 s1)) \<longrightarrow>
      match_status m1 \<noteq> None) \<and>
   (Call_storeMatch c2 m2 \<in> set (calls (sessionVerifyCreate2 env sreq2 s2)) \<longrightarrow>
      match_status m2 \<noteq> None)"
proof (intro conjI impI)
  assume h: "c2_validation req = None \<and>
    extractFilesFromJSON env (c2_files req) = Inr (Some files) \<and>
    checkFiles env files = Inr (c # cs) \<and>
    (\<forall>x\<in>set (c # cs). isValid_ignoreMissing env x) \<and>
    verifyCreate2_ext env c (c2_deployerAddress req) (c2_salt req) (c2_create2Address req)
      (c2_abiEncodedConstructorArguments req) = Inr m \<and>
    match_status m = None"
  then have f: "filter (\<lambda>x. \<not> isValid_ignoreMissing env x) (c # cs) = []"
    by (simp only: filter_empty_conv) blast
  have run: "verifyCreate2 env req s = create2_match env req (c # cs) s"
    using h f by (simp add: verifyCreate2_def)
  show "calls (verifyCreate2 env req s) =
        [Call_verifyCreate2 c (c2_deployerAddress req) (c2_salt req) (c2_create2Address req)
           (c2_abiEncodedConstructorArguments req)]"
    using h by (simp add: run create2_match_def send_def)
  show "response (verifyCreate2 env req s) = Inr (MatchResult [m])"
    using h by (simp add: run create2_match_def send_def)
  show "session_after (verifyCreate2 env req s) = s"
    using h by (simp add: run create2_match_def send_def)
next
  assume "\<not> no_wrappers s' \<and>
    map_of (registry_of s') (sc2_verificationId sreq) = Some w \<and>
    verifyCreate2_ext env
      (new_CheckedContract (metadata (contract w)) (solidity (contract w))
         (missing (contract w)) (invalid (contract w)))
      (sc2_deployerAddress sreq) (sc2_salt sreq) (sc2_create2Address sreq)
      (sc2_abiEncodedConstructorArguments sreq) = Inr m' \<and>
    match_status m' = None"
  then show "calls (sessionVerifyCreate2 env sreq s') =
        [Call_verifyCreate2
           (new_CheckedContract (metadata (contract w)) (solidity (contract w))
              (missing (contract w)) (invalid (contract w)))
           (sc2_deployerAddress sreq) (sc2_salt sreq) (sc2_create2Address sreq)
           (sc2_abiEncodedConstructorArguments sreq)]"
    by (simp add: sessionVerifyCreate2_def send_def Let_def)
next
  assume "Call_storeMatch c1 m1 \<in> set (calls (verifyCreate2 env req1 s1))"
  then show "match_status m1 \<noteq> None"
    using verifyCreate2_stores by blast
next
  assume "Call_storeMatch c2 m2 \<in> set (calls (sessionVerifyCreate2 env sreq2 s2))"
  then show "match_status m2 \<noteq> None"
    using sessionVerifyCreate2_stores by blast
qed

theorem create2_mismatch_not_stored_witness:
  "verifyCreate2_ext env_ex contract_ex ''0xd'' ''0x01'' ''0xff'' None = Inr (match_ex None ''0xc2'') \<and>
   match_status (match_ex None ''0xc2'') = None \<and>
   calls (verifyCreate2 env_ex (create2_request_ex ''0xff'') session_ex) =
     [Call_verifyCreate2 contract_ex ''0xd'' ''0x01'' ''0xff'' None] \<and>
   session_after (verifyCreate2 env_ex (create2_request_ex ''0xff'') session_ex) = session_ex \<and>
   calls (sessionVerifyCreate2 env_ex (session_create2_request_ex ''0xff'') session_ex) =
     [Call_verifyCreate2 contract_ex ''0xd'' ''0x01'' ''0xff'' None] \<and>
   Call_storeMatch contract_ex (match_ex (Some valid_creation) ''0xc2'') \<in>
     set (calls (verifyCreate2 env_ex (create2_request_ex ''0xc2'') session_ex)) \<and>
   Call_storeMatch contract_ex (match_ex (Some valid_creation) ''0xc2'') \<in>
     set (calls (sessionVerifyCreate2 env_ex (session_create2_request_ex ''0xc2'') session_ex)) \<and>
   match_status (match_ex (Some valid_creation) ''0xc2'') \<noteq> None"
proof -
  let ?files = "[\<lparr>pb_path = ''A.sol'', pb_buffer = ''{}''\<rparr>]"
  let ?bad = "create2_request_ex ''0xff''"
  let ?sbad = "session_create2_request_ex ''0xff''"
  have a: "c2_validation ?bad = None \<and>
    extractFilesFromJSON env_ex (c2_files ?bad) = Inr (Some ?files) \<and>
    checkFiles env_ex ?files = Inr (contract_ex # []) \<and>
    (\<forall>x\<in>set (contract_ex # []). isValid_ignoreMissing env_ex x) \<and>
    verifyCreate2_ext env_ex contract_ex (c2_deployerAddress ?bad) (c2_salt ?bad)
      (c2_create2Address ?bad) (c2_abiEncodedConstructorArguments ?bad) =
      Inr (match_ex None ''0xc2'') \<and>
    match_status (match_ex None ''0xc2'') = None"
    by (simp add: create2_request_ex_def env_ex_def contract_ex_def match_ex_def)
  have c: "new_CheckedContract (metadata (contract (pending_ex contract_ex)))
             (solidity (contract (pending_ex contract_ex)))
             (missing (contract (pending_ex contract_ex)))
             (invalid (contract (pending_ex contract_ex))) = contract_ex"
    by (simp add: new_CheckedContract_def pending_ex_def contract_ex_def)
  have b: "\<not> no_wrappers session_ex \<and>
    map_of (registry_of session_ex) (sc2_verificationId ?sbad) = Some (pending_ex contract_ex) \<and>
    verifyCreate2_ext env_ex contract_ex
      (sc2_deployerAddress ?sbad) (sc2_salt ?sbad) (sc2_create2Address ?sbad)
      (sc2_abiEncodedConstructorArguments ?sbad) = Inr (match_ex None ''0xc2'') \<and>
    match_status (match_ex None ''0xc2'') = None"
    by (simp add: session_create2_request_ex_def env_ex_def session_ex_def no_wrappers_def
        registry_of_def match_ex_def)
  have d: "Call_storeMatch contract_ex (match_ex (Some valid_creation) ''0xc2'') \<in>
     set (calls (verifyCreate2 env_ex (create2_request_ex ''0xc2'') session_ex))"
    by (simp add: verifyCreate2_def create2_match_def create2_request_ex_def env_ex_def
        send_def match_ex_def contract_ex_def Let_def)
  have e: "Call_storeMatch contract_ex (match_ex (Some valid_creation) ''0xc2'') \<in>
     set (calls (sessionVerifyCreate2 env_ex (session_create2_request_ex ''0xc2'') session_ex))"
    by (simp add: sessionVerifyCreate2_def session_create2_request_ex_def env_ex_def
        session_ex_def no_wrappers_def registry_of_def send_def match_ex_def
        new_CheckedContract_def pending_ex_def contract_ex_def Let_def)
  have r: "c2_deployerAddress ?bad = ''0xd'' \<and> c2_salt ?bad = ''0x01'' \<and>
           c2_create2Address ?bad = ''0xff'' \<and> c2_abiEncodedConstructorArguments ?bad = None \<and>
           sc2_deployerAddress ?sbad = ''0xd'' \<and> sc2_salt ?sbad = ''0x01'' \<and>
           sc2_create2Address ?sbad = ''0xff'' \<and> sc2_abiEncodedConstructorArguments ?sbad = None"
    by (simp add: create2_request_ex_def session_create2_request_ex_def)
  from create2_mismatch_not_stored
         [where req = ?bad and env = env_ex and files = ?files and c = contract_ex
            and cs = "[]" and m = "match_ex None ''0xc2''" and s = session_ex
            and s' = session_ex and sreq = ?sbad and w = "pending_ex contract_ex"
            and m' = "match_ex None ''0xc2''"
            and ?c1.0 = contract_ex and ?m1.0 = "match_ex (Some valid_creation) ''0xc2''"
            and ?req1.0 = "create2_request_ex ''0xc2''" and ?s1.0 = session_ex
            and ?c2.0 = contract_ex and ?m2.0 = "match_ex (Some valid_creation) ''0xc2''"
            and ?sreq2.0 = "session_create2_request_ex ''0xc2''" and ?s2.0 = session_ex]
       a b c d e r
  show ?thesis by (simp only: ) blast
qed

subsection \<open>Block-explorer import without a session\<close>

text \<open>
  Claim C9. In \<open>verifyFromEtherscan\<close>, whatever match the engine returns, also a
  well-formed non-match whose status is falsy, \<open>storeMatch\<close> is called with it: the
  calls of the request are the engine's and then the repository's. In the CREATE2 pathway
  a match reaches \<open>storeMatch\<close> only with a truthy status.
\<close>

theorem import_stores_every_match:
  "(lv_validation req = None \<and>
    processRequestFromEtherscan env (lv_chain req) (lv_address req) = Inr r \<and>
    getMetadataFromCompiler env (compilerVersion r) (solcJsonInput r) (contractName r) = Inr md \<and>
    verifyDeployed env
      (new_CheckedContract md (getMappedSourcesFromJsonInput env (solcJsonInput r)) [] [])
      (Some (lv_chain req)) (Some (lv_address req)) None = Inr m \<longrightarrow>
      calls (verifyFromEtherscan env req s) =
        [Call_verifyDeployed
           (new_CheckedContract md (getMappedSourcesFromJsonInput env (solcJsonInput r)) [] [])
           (Some (lv_chain req)) (Some (lv_address req)) None,
         Call_storeMatch
           (new_CheckedContract md (getMappedSourcesFromJsonInput env (solcJsonInput r)) [] [])
           m]) \<and>
   (Call_storeMatch c m' \<in> set (calls (verifyCreate2 env creq s')) \<longrightarrow>
      match_status m' \<noteq> None)"
proof (intro conjI impI)
  assume "lv_validation req = None \<and>
    processRequestFromEtherscan env (lv_chain req) (lv_address req) = Inr r \<and>
    getMetadataFromCompiler env (compilerVersion r) (solcJsonInput r) (contractName r) = Inr md \<and>
    verifyDeployed env
      (new_CheckedContract md (getMappedSourcesFromJsonInput env (solcJsonInput r)) [] [])
      (Some (lv_chain req)) (Some (lv_address req)) None = Inr m"
  then show "calls (verifyFromEtherscan env req s) =
        [Call_verifyDeployed
           (new_CheckedContract md (getMappedSourcesFromJsonInput env (solcJsonInput r)) [] [])
           (Some (lv_chain req)) (Some (lv_address req)) None,
         Call_storeMatch
           (new_CheckedContract md (getMappedSourcesFromJsonInput env (solcJsonInput r)) [] [])
           m]"
    by (cases "storeMatch env
          (new_CheckedContract md (getMappedSourcesFromJsonInput env (solcJsonInput r)) [] []) m")
       (simp_all add: verifyFromEtherscan_def Let_def send_def throw_def)
next
  assume "Call_storeMatch c m' \<in> set (calls (verifyCreate2 env creq s'))"
  then show "match_status m' \<noteq> None"
    using verifyCreate2_stores by blast
qed

theorem import_stores_every_match_witness:
  "verifyDeployed env_ex imported_contract_ex (Some ''1'') (Some ''0xbad'') None =
     Inr (match_ex None ''0xbad'') \<and>
   match_status (match_ex None ''0xbad'') = None \<and>
   calls (verifyFromEtherscan env_ex nonmatch_request_ex session_ex) =
     [Call_verifyDeployed imported_contract_ex (Some ''1'') (Some ''0xbad'') None,
      Call_storeMatch imported_contract_ex (match_ex None ''0xbad'')] \<and>
   Call_storeMatch contract_ex (match_ex (Some valid_creation) ''0xc2'') \<in>
     set (calls (verifyCreate2 env_ex (create2_request_ex ''0xc2'') session_ex)) \<and>
   match_status (match_ex (Some valid_creation) ''0xc2'') \<noteq> None"
proof -
  let ?r = "\<lparr>compilerVersion = ''0.8.20'',
          solcJsonInput = \<lparr>sources = [(''C.sol'', ''contract C {}'')], settings = ''{}''\<rparr>,
          contractName = ''C''\<rparr>"
  have c: "new_CheckedContract ''{}'' (getMappedSourcesFromJsonInput env_ex (solcJsonInput ?r)) [] []
           = imported_contract_ex"
    by (simp add: new_CheckedContract_def imported_contract_ex_def env_ex_def)
  have q: "lv_chain nonmatch_request_ex = ''1'' \<and> lv_address nonmatch_request_ex = ''0xbad''"
    by (simp add: nonmatch_request_ex_def)
  have a: "lv_validation nonmatch_request_ex = None \<and>
    processRequestFromEtherscan env_ex ''1'' ''0xbad'' = Inr ?r \<and>
    getMetadataFromCompiler env_ex (compilerVersion ?r) (solcJsonInput ?r) (contractName ?r) =
      Inr ''{}'' \<and>
    verifyDeployed env_ex imported_contract_ex (Some ''1'') (Some ''0xbad'') None =
      Inr (match_ex None ''0xbad'')"
    by (simp add: nonmatch_request_ex_def env_ex_def)
  have n: "match_status (match_ex None ''0xbad'') = None"
    by (simp add: match_ex_def)
  have d: "Call_storeMatch contract_ex (match_ex (Some valid_creation) ''0xc2'') \<in>
     set (calls (verifyCreate2 env_ex (create2_request_ex ''0xc2'') session_ex))"
    by (simp add: verifyCreate2_def create2_match_def create2_request_ex_def env_ex_def
        send_def match_ex_def contract_ex_def Let_def)
  from import_stores_every_match
         [where req = nonmatch_request_ex and env = env_ex and r = ?r and md = "''{}''"
            and m = "match_ex None ''0xbad''" and s = session_ex
            and c = contract_ex and m' = "match_ex (Some valid_creation) ''0xc2''"
            and creq = "create2_request_ex ''0xc2''" and s' = session_ex]
       a c d n q
  show ?thesis by (simp only: ) blast
qed

subsection \<open>Session CREATE2: the wrapper's target\<close>

lemma sessionVerifyCreate2_target:
  "\<not> no_wrappers s \<and>
   map_of (registry_of s) (sc2_verificationId req) = Some w \<and>
   verifyCreate2_ext env
     (new_CheckedContract (metadata (contract w)) (solidity (contract w))
        (missing (contract w)) (invalid (contract w)))
     (sc2_deployerAddress req) (sc2_salt req) (sc2_create2Address req)
     (sc2_abiEncodedConstructorArguments req) = Inr m \<longrightarrow>
     (\<exists>w'. map_of (registry_of (session_after (sessionVerifyCreate2 env req s)))
             (sc2_verificationId req) = Some w' \<and>
           chainId w' = Some ''0'' \<and> address w' = Some (match_address m))"
proof
  assume h: "\<not> no_wrappers s \<and>
   map_of (registry_of s) (sc2_verificationId req) = Some w \<and>
   verifyCreate2_ext env
     (new_CheckedContract (metadata (contract w)) (solidity (contract w))
        (missing (contract w)) (invalid (contract w)))
     (sc2_deployerAddress req) (sc2_salt req) (sc2_create2Address req)
     (sc2_abiEncodedConstructorArguments req) = Inr m"
  let ?s1 = "s\<lparr>contractWrappers :=
               Some (modify_wrapper (registry_of s) (sc2_verificationId req) (record_create2 m))\<rparr>"
  have "session_after (sessionVerifyCreate2 env req s) = ?s1"
    using h by (simp add: sessionVerifyCreate2_def Let_def send_def throw_def
        split: option.splits)
  moreover have "map_of (registry_of ?s1) (sc2_verificationId req) = Some (record_create2 m w)"
    using h by (simp add: registry_of_def map_of_modify_wrapper)
  moreover have "chainId (record_create2 m w) = Some ''0'' \<and>
                 address (record_create2 m w) = Some (match_address m)"
    by (simp add: record_create2_def)
  ultimately show "\<exists>w'. map_of (registry_of (session_after (sessionVerifyCreate2 env req s)))
             (sc2_verificationId req) = Some w' \<and>
           chainId w' = Some ''0'' \<and> address w' = Some (match_address m)"
    by simp
qed

text \<open>
  Claim C10. Whenever the session CREATE2 verify operation obtains a match from the engine
  for the wrapper it names, whatever the status of that match, the wrapper's chainId
  becomes the string "0" and its address the address carried by the match; the address
  and chainId the wrapper had are discarded.
\<close>

theorem session_create2_overwrites_target:
  "\<not> no_wrappers s \<and>
   map_of (registry_of s) (sc2_verificationId req) = Some w \<and>
   verifyCreate2_ext env
     (new_CheckedContract (metadata (contract w)) (solidity (contract w))
        (missing (contract w)) (invalid (contract w)))
     (sc2_deployerAddress req) (sc2_salt req) (sc2_create2Address req)
     (sc2_abiEncodedConstructorArguments req) = Inr m \<longrightarrow>
     (\<exists>w'. map_of (registry_of (session_after (sessionVerifyCreate2 env req s)))
             (sc2_verificationId req) = Some w' \<and>
           chainId w' = Some ''0'' \<and> address w' = Some (match_address m))"
  by (rule sessionVerifyCreate2_target)

theorem session_create2_overwrites_target_witness:
  "map_option address (map_of (registry_of targeted_ex) ''a'') = Some (Some ''0x01'') \<and>
   map_option chainId (map_of (registry_of targeted_ex) ''a'') = Some (Some ''1'') \<and>
   match_status (match_ex None ''0xc2'') = None \<and>
   (\<exists>w'. map_of (registry_of (session_after
            (sessionVerifyCreate2 env_ex (session_create2_request_ex ''0xff'') targeted_ex)))
          ''a'' = Some w' \<and>
        chainId w' = Some ''0'' \<and> address w' = Some ''0xc2'')"
proof -
  let ?w = "(pending_ex contract_ex)\<lparr>address := Some ''0x01'', chainId := Some ''1''\<rparr>"
  let ?req = "session_create2_request_ex ''0xff''"
  have a: "\<not> no_wrappers targeted_ex \<and>
    map_of (registry_of targeted_ex) (sc2_verificationId ?req) = Some ?w \<and>
    verifyCreate2_ext env_ex
     (new_CheckedContract (metadata (contract ?w)) (solidity (contract ?w))
        (missing (contract ?w)) (invalid (contract ?w)))
     (sc2_deployerAddress ?req) (sc2_salt ?req) (sc2_create2Address ?req)
     (sc2_abiEncodedConstructorArguments ?req) = Inr (match_ex None ''0xc2'')"
    by (simp add: session_create2_request_ex_def env_ex_def targeted_ex_def no_wrappers_def
        registry_of_def)
  have b: "map_option address (map_of (registry_of targeted_ex) ''a'') = Some (Some ''0x01'') \<and>
   map_option chainId (map_of (registry_of targeted_ex) ''a'') = Some (Some ''1'')"
    by (simp add: targeted_ex_def registry_of_def)
  have c: "match_status (match_ex None ''0xc2'') = None \<and>
           match_address (match_ex None ''0xc2'') = ''0xc2'' \<and> sc2_verificationId ?req = ''a''"
    by (simp add: match_ex_def session_create2_request_ex_def)
  from session_create2_overwrites_target
         [where s = targeted_ex and req = ?req and w = ?w and env = env_ex
            and m = "match_ex None ''0xc2''"]
       a b c
  show ?thesis by (simp only: ) blast
qed

subsection \<open>Session CREATE2: precompilation\<close>

lemma registry_of_update: "registry_of (s\<lparr>contractWrappers := Some r\<rparr>) = r"
  by (simp add: registry_of_def)

lemma precompile_session:
  "session_after (sessionPrecompileContract env i s) = s \<or>
   (\<exists>b. session_after (sessionPrecompileContract env i s) =
          s\<lparr>contractWrappers := Some (modify_wrapper (registry_of s) i (refresh_bytecode b))\<rparr>)"
  by (auto simp: sessionPrecompileContract_def Let_def throw_def send_def
      split: option.splits sum.splits)

lemma refresh_bytecode_frame:
  "status (refresh_bytecode b w) = status w"
  "statusMessage (refresh_bytecode b w) = statusMessage w"
  "address (refresh_bytecode b w) = address w"
  "chainId (refresh_bytecode b w) = chainId w"
  "creatorTxHash (refresh_bytecode b w) = creatorTxHash w"
  "storageTimestamp (refresh_bytecode b w) = storageTimestamp w"
  "contract (refresh_bytecode b w) = (contract w)\<lparr>creationBytecode := Some b\<rparr>"
  by (simp_all add: refresh_bytecode_def)

text \<open>
  Claim C7. The session precompile operation leaves the file store and the keys of the
  registry as they are; every wrapper keeps its status, statusMessage, address, chainId,
  creatorTxHash and storageTimestamp, and its contract up to \<open>creationBytecode\<close>;
  every wrapper other than the one named is unchanged. When the named wrapper exists and
  recompilation succeeds, its contract's \<open>creationBytecode\<close> is the recompiled one.
\<close>

theorem precompile_only_refreshes_bytecode:
  "inputFiles (session_after (sessionPrecompileContract env i s)) = inputFiles s \<and>
   map fst (registry_of (session_after (sessionPrecompileContract env i s))) =
     map fst (registry_of s) \<and>
   (map_of (registry_of s) k = Some w \<longrightarrow>
      (\<exists>w'. map_of (registry_of (session_after (sessionPrecompileContract env i s))) k = Some w' \<and>
            status w' = status w \<and> statusMessage w' = statusMessage w \<and>
            address w' = address w \<and> chainId w' = chainId w \<and>
            creatorTxHash w' = creatorTxHash w \<and>
            storageTimestamp w' = storageTimestamp w \<and>
            contract w' = (contract w)\<lparr>creationBytecode := creationBytecode (contract w')\<rparr> \<and>
            (k \<noteq> i \<longrightarrow> w' = w))) \<and>
   (\<not> no_wrappers s \<and> map_of (registry_of s) i = Some v \<and>
    recompile env (new_CheckedContract (metadata (contract v)) (solidity (contract v))
                     (missing (contract v)) (invalid (contract v))) = Inr b \<longrightarrow>
      (\<exists>v'. map_of (registry_of (session_after (sessionPrecompileContract env i s))) i = Some v' \<and>
            creationBytecode (contract v') = Some b))"
proof (intro conjI impI)
  let ?t = "session_after (sessionPrecompileContract env i s)"
  note cases = precompile_session[of env i s]
  show "inputFiles ?t = inputFiles s"
    using cases by auto
  show "map fst (registry_of ?t) = map fst (registry_of s)"
    using cases by (auto simp: registry_of_update keys_modify_wrapper)
  {
    assume w: "map_of (registry_of s) k = Some w"
    from cases show "\<exists>w'. map_of (registry_of ?t) k = Some w' \<and>
            status w' = status w \<and> statusMessage w' = statusMessage w \<and>
            address w' = address w \<and> chainId w' = chainId w \<and>
            creatorTxHash w' = creatorTxHash w \<and>
            storageTimestamp w' = storageTimestamp w \<and>
            contract w' = (contract w)\<lparr>creationBytecode := creationBytecode (contract w')\<rparr> \<and>
            (k \<noteq> i \<longrightarrow> w' = w)"
    proof
      assume "?t = s"
      with w show ?thesis by simp
    next
      assume "\<exists>b. ?t = s\<lparr>contractWrappers :=
                 Some (modify_wrapper (registry_of s) i (refresh_bytecode b))\<rparr>"
      then obtain b where
        "?t = s\<lparr>contractWrappers := Some (modify_wrapper (registry_of s) i (refresh_bytecode b))\<rparr>"
        by blast
      then have "map_of (registry_of ?t) k = Some (if k = i then refresh_bytecode b w else w)"
        using w by (cases "k = i") (simp_all add: registry_of_update map_of_modify_wrapper)
      then show ?thesis
        by (cases "k = i") (simp_all add: refresh_bytecode_frame)
    qed
  }
  {
    assume h: "\<not> no_wrappers s \<and> map_of (registry_of s) i = Some v \<and>
      recompile env (new_CheckedContract (metadata (contract v)) (solidity (contract v))
                     (missing (contract v)) (invalid (contract v))) = Inr b"
    then have "?t = s\<lparr>contractWrappers :=
                 Some (modify_wrapper (registry_of s) i (refresh_bytecode b))\<rparr>"
      by (simp add: sessionPrecompileContract_def Let_def send_def)
    then have "map_of (registry_of ?t) i = Some (refresh_bytecode b v)"
      using h by (simp add: registry_of_update map_of_modify_wrapper)
    then show "\<exists>v'. map_of (registry_of ?t) i = Some v' \<and>
            creationBytecode (contract v') = Some b"
      by (simp add: refresh_bytecode_frame)
  }
qed

theorem precompile_only_refreshes_bytecode_witness:
  "map_of (registry_of targeted_ex) ''a'' =
     Some ((pending_ex contract_ex)\<lparr>address := Some ''0x01'', chainId := Some ''1''\<rparr>) \<and>
   recompile env_ex contract_ex = Inr ''0x6080'' \<and>
   (\<exists>w'. map_of (registry_of (session_after (sessionPrecompileContract env_ex ''a'' targeted_ex)))
          ''a'' = Some w' \<and>
        status w' = St_pending \<and> address w' = Some ''0x01'' \<and> chainId w' = Some ''1'') \<and>
   (\<exists>v'. map_of (registry_of (session_after (sessionPrecompileContract env_ex ''a'' targeted_ex)))
          ''a'' = Some v' \<and>
        creationBytecode (contract v') = Some ''0x6080'')"
proof -
  let ?w = "(pending_ex contract_ex)\<lparr>address := Some ''0x01'', chainId := Some ''1''\<rparr>"
  have a: "map_of (registry_of targeted_ex) ''a'' = Some ?w"
    by (simp add: targeted_ex_def registry_of_def)
  have c: "new_CheckedContract (metadata (contract ?w)) (solidity (contract ?w))
             (missing (contract ?w)) (invalid (contract ?w)) = contract_ex"
    by (simp add: new_CheckedContract_def pending_ex_def contract_ex_def)
  have b: "\<not> no_wrappers targeted_ex \<and> recompile env_ex contract_ex = Inr ''0x6080''"
    by (simp add: no_wrappers_def targeted_ex_def env_ex_def)
  have f: "status ?w = St_pending \<and> address ?w = Some ''0x01'' \<and> chainId ?w = Some ''1''"
    by (simp add: pending_ex_def)
  from precompile_only_refreshes_bytecode
         [where env = env_ex and i = "''a''" and s = targeted_ex and k = "''a''" and w = ?w
            and v = ?w and b = "''0x6080''"]
       a b c f
  show ?thesis by (simp only: ) metis
qed

subsection \<open>The orchestrator on a batch\<close>

lemma keys_verify_each: "map fst (fst (verify_each env batch (reg, evs))) = map fst reg"
  by (induction batch arbitrary: reg evs) (auto simp: keys_modify_wrapper split: option.splits)

lemma verify_each_other:
  "i \<notin> set batch \<Longrightarrow> map_of (fst (verify_each env batch (reg, evs))) i = map_of reg i"
  by (induction batch arbitrary: reg evs) (auto simp: map_of_modify_wrapper split: option.splits)

lemma verify_each_settled:
  "distinct batch \<Longrightarrow> i \<in> set batch \<Longrightarrow> map_of reg i = Some w \<Longrightarrow>
   map_of (fst (verify_each env batch (reg, evs))) i = Some (settle env w)"
proof (induction batch arbitrary: reg evs)
  case Nil
  then show ?case by simp
next
  case (Cons j batch)
  show ?case
  proof (cases "j = i")
    case True
    with Cons.prems have "i \<notin> set batch" by simp
    then have "map_of (fst (verify_each env batch
                 (modify_wrapper reg i (settle env), evs @ settle_events env w))) i =
               map_of (modify_wrapper reg i (settle env)) i"
      by (rule verify_each_other)
    with True Cons.prems show ?thesis by (simp add: map_of_modify_wrapper)
  next
    case False
    with Cons.prems have d: "distinct batch" and m: "i \<in> set batch" by auto
    show ?thesis
    proof (cases "map_of reg j")
      case None
      with Cons.IH[OF d m Cons.prems(3)] show ?thesis by simp
    next
      case (Some v)
      have "map_of (modify_wrapper reg j (settle env)) i = Some w"
        using False Cons.prems(3) by (simp add: map_of_modify_wrapper)
      from Cons.IH[OF d m this] Some show ?thesis by simp
    qed
  qed
qed



lemma distinct_place: "distinct b \<Longrightarrow> distinct (place b i)"
  by (simp add: place_def)

lemma retarget_twice: "retarget rc (retarget rc0 w) = retarget rc w"
  by (simp add: retarget_def)

lemma verify_each_no_wrappers: "verify_each env batch ([], evs) = ([], evs)"
  by (induction batch) simp_all

lemma orchestrator_registry:
  "registry_of (fst (verifyContractsInSession env batch s)) =
     fst (verify_each env batch (registry_of s, []))"
  by (cases "contractWrappers s")
     (auto simp: verifyContractsInSession_def registry_of_def verify_each_no_wrappers
        split: prod.splits)

lemma orchestrator_files: "inputFiles (fst (verifyContractsInSession env batch s)) = inputFiles s"
  by (auto simp: verifyContractsInSession_def split: prod.splits option.splits)

lemma orchestrator_settles:
  assumes "distinct b" and "map_of (registry_of t) j = Some v"
  shows "map_of (registry_of (fst (verifyContractsInSession env b t))) j =
           Some (if j \<in> set b then settle env v else v)"
proof (cases "j \<in> set b")
  case True
  with assms show ?thesis
    by (simp add: orchestrator_registry verify_each_settled)
next
  case False
  with assms show ?thesis
    by (simp add: orchestrator_registry verify_each_other)
qed

subsection \<open>The loop of the session verify endpoint\<close>

lemma find_append_cases:
  "find P (xs @ ys) = (case find P xs of None \<Rightarrow> find P ys | Some x \<Rightarrow> Some x)"
  by (induction xs) auto

lemma last_named_Cons:
  "last_named i (rc # rcs) =
     (case last_named i rcs of
        None \<Rightarrow> if rc_verificationId rc = i then Some rc else None
      | Some r \<Rightarrow> Some r)"
  by (auto simp: last_named_def find_append_cases split: option.splits)

lemma last_named_only:
  "distinct (map rc_verificationId rcs) \<Longrightarrow> rc \<in> set rcs \<Longrightarrow>
   last_named (rc_verificationId rc) rcs = Some rc"
proof (induction rcs)
  case Nil
  then show ?case by simp
next
  case (Cons a rcs)
  show ?case
  proof (cases "rc \<in> set rcs")
    case True
    with Cons have "last_named (rc_verificationId rc) rcs = Some rc" by simp
    then show ?thesis by (simp add: last_named_Cons)
  next
    case False
    with Cons.prems have a: "a = rc" by simp
    from Cons.prems(1) have "rc_verificationId a \<notin> rc_verificationId ` set rcs" by simp
    then have "\<forall>x\<in>set rcs. rc_verificationId x \<noteq> rc_verificationId a" by (metis imageI)
    then have "last_named (rc_verificationId a) rcs = None"
      by (simp add: last_named_def find_None_iff)
    with a show ?thesis by (simp add: last_named_Cons)
  qed
qed

lemma retargeted_Cons:
  "retargeted i (rc # rcs) w =
     retargeted i rcs (if rc_verificationId rc = i then retarget rc w else w)"
  by (simp add: retargeted_def last_named_Cons retarget_twice split: option.splits)



lemma received_result:
  obtains r b w e where "(x :: received \<times> error option) = ((r, b, w), e)"
  by (cases x) (metis prod_cases3)

lemma receive_contract_cases:
  assumes "receive_contract env rc (reg, b, ws) = ((reg', b', ws'), err)"
  shows "(map_of reg (rc_verificationId rc) = None \<and> reg' = reg) \<or>
         (\<exists>w. map_of reg (rc_verificationId rc) = Some w \<and> err = None \<and> ws' = ws \<and>
              reg' = modify_wrapper reg (rc_verificationId rc) (retarget rc) \<and>
              b' = (if isVerifiable (retarget rc w) then place b (rc_verificationId rc) else b))"
  using assms
  by (auto simp: receive_contract_def lookup_wrapper_def split: option.splits sum.splits if_splits)

lemma receive_contract_registry:
  assumes "receive_contract env rc (reg, b, ws) = ((reg', b', ws'), err)"
  shows "map_of reg' i =
           map_option (\<lambda>w. if rc_verificationId rc = i then retarget rc w else w) (map_of reg i)"
  using receive_contract_cases[OF assms]
  by (cases "rc_verificationId rc = i")
     (auto simp: map_of_modify_wrapper option.map_ident cong: option.map_cong)

lemma receive_contract_keys:
  assumes "receive_contract env rc (reg, b, ws) = ((reg', b', ws'), err)"
  shows "map fst reg' = map fst reg"
  using receive_contract_cases[OF assms] by (auto simp: keys_modify_wrapper)

lemma receive_contract_batch:
  assumes "receive_contract env rc (reg, b, ws) = ((reg', b', ws'), err)" and "i \<in> set b'"
  shows "i \<in> set b \<or>
         (rc_verificationId rc = i \<and>
          ((\<exists>w. map_of reg i = Some w \<and> isVerifiable (retarget rc w)) \<or>
           (map_of reg i = None \<and> i \<in> set object_prototype_names \<and>
            isVerifiable_member env rc = Inr True)))"
  using assms
  by (auto simp: receive_contract_def lookup_wrapper_def place_def
      split: option.splits sum.splits if_splits)

lemma receive_contract_distinct:
  assumes "receive_contract env rc (reg, b, ws) = ((reg', b', ws'), err)" and "distinct b"
  shows "distinct b'"
  using assms
  by (auto simp: receive_contract_def lookup_wrapper_def distinct_place
      split: option.splits sum.splits if_splits)

lemma receive_contract_writes:
  assumes "receive_contract env rc (reg, b, ws) = ((reg', b', ws'), err)"
    and "\<forall>e\<in>set ws. prototype_write e"
  shows "\<forall>e\<in>set ws'. prototype_write e"
  using assms
  by (auto simp: receive_contract_def lookup_wrapper_def
      split: option.splits sum.splits if_splits)

lemma receive_contracts_keys:
  "receive_contracts env rcs (reg, b, ws) = ((reg', b', ws'), err) \<Longrightarrow> map fst reg' = map fst reg"
proof (induction rcs arbitrary: reg b ws)
  case Nil
  then show ?case by simp
next
  case (Cons rc rcs)
  obtain r1 b1 w1 e1 where one: "receive_contract env rc (reg, b, ws) = ((r1, b1, w1), e1)"
    by (rule received_result)
  from receive_contract_keys[OF one] have k: "map fst r1 = map fst reg" .
  show ?case
  proof (cases e1)
    case None
    with Cons.prems one have "receive_contracts env rcs (r1, b1, w1) = ((reg', b', ws'), err)"
      by simp
    from Cons.IH[OF this] k show ?thesis by simp
  next
    case (Some e)
    with Cons.prems one k show ?thesis by simp
  qed
qed

lemma receive_contracts_distinct_batch:
  "receive_contracts env rcs (reg, b, ws) = ((reg', b', ws'), err) \<Longrightarrow> distinct b \<Longrightarrow> distinct b'"
proof (induction rcs arbitrary: reg b ws)
  case Nil
  then show ?case by simp
next
  case (Cons rc rcs)
  obtain r1 b1 w1 e1 where one: "receive_contract env rc (reg, b, ws) = ((r1, b1, w1), e1)"
    by (rule received_result)
  from receive_contract_distinct[OF one Cons.prems(2)] have d: "distinct b1" .
  show ?case
  proof (cases e1)
    case None
    with Cons.prems one have "receive_contracts env rcs (r1, b1, w1) = ((reg', b', ws'), err)"
      by simp
    from Cons.IH[OF this d] show ?thesis .
  next
    case (Some e)
    with Cons.prems one d show ?thesis by simp
  qed
qed

lemma receive_contracts_writes:
  "receive_contracts env rcs (reg, b, ws) = ((reg', b', ws'), err) \<Longrightarrow>
   \<forall>e\<in>set ws. prototype_write e \<Longrightarrow> \<forall>e\<in>set ws'. prototype_write e"
proof (induction rcs arbitrary: reg b ws)
  case Nil
  then show ?case by simp
next
  case (Cons rc rcs)
  obtain r1 b1 w1 e1 where one: "receive_contract env rc (reg, b, ws) = ((r1, b1, w1), e1)"
    by (rule received_result)
  from receive_contract_writes[OF one Cons.prems(2)] have d: "\<forall>e\<in>set w1. prototype_write e" .
  show ?case
  proof (cases e1)
    case None
    with Cons.prems one have "receive_contracts env rcs (r1, b1, w1) = ((reg', b', ws'), err)"
      by simp
    from Cons.IH[OF this d] show ?thesis .
  next
    case (Some e)
    with Cons.prems one d show ?thesis by simp
  qed
qed

lemma receive_contracts_registry:
  "receive_contracts env rcs (reg, b, ws) = ((reg', b', ws'), None) \<Longrightarrow>
   map_of reg' i = map_option (retargeted i rcs) (map_of reg i)"
proof (induction rcs arbitrary: reg b ws)
  case Nil
  then show ?case
    by (simp add: retargeted_def last_named_def option.map_ident cong: option.map_cong)
next
  case (Cons rc rcs)
  obtain r1 b1 w1 e1 where one: "receive_contract env rc (reg, b, ws) = ((r1, b1, w1), e1)"
    by (rule received_result)
  with Cons.prems have e1: "e1 = None" by (cases e1) simp_all
  with Cons.prems one have "receive_contracts env rcs (r1, b1, w1) = ((reg', b', ws'), None)"
    by simp
  from Cons.IH[OF this] have "map_of reg' i = map_option (retargeted i rcs) (map_of r1 i)" .
  also have "map_of r1 i =
      map_option (\<lambda>w. if rc_verificationId rc = i then retarget rc w else w) (map_of reg i)"
    by (rule receive_contract_registry[OF one])
  finally show ?case
    by (simp add: option.map_comp comp_def retargeted_Cons cong: option.map_cong)
qed

lemma receive_contracts_batch:
  "receive_contracts env rcs (reg, b, ws) = ((reg', b', ws'), err) \<Longrightarrow> i \<in> set b' \<Longrightarrow>
   i \<in> set b \<or>
   (\<exists>rc\<in>set rcs. rc_verificationId rc = i \<and>
      ((\<exists>w. map_of reg i = Some w \<and> isVerifiable (retarget rc w)) \<or>
       (map_of reg i = None \<and> i \<in> set object_prototype_names \<and>
        isVerifiable_member env rc = Inr True)))"
proof (induction rcs arbitrary: reg b ws)
  case Nil
  then show ?case by simp
next
  case (Cons rc0 rcs)
  obtain r1 b1 w1 e1 where one: "receive_contract env rc0 (reg, b, ws) = ((r1, b1, w1), e1)"
    by (rule received_result)
  note head = receive_contract_batch[OF one, of i]
  have reg1: "map_of r1 i =
      map_option (\<lambda>w. if rc_verificationId rc0 = i then retarget rc0 w else w) (map_of reg i)"
    by (rule receive_contract_registry[OF one])
  show ?case
  proof (cases e1)
    case (Some e)
    with Cons.prems one have "b' = b1" by simp
    with Cons.prems(2) head show ?thesis by auto
  next
    case None
    with Cons.prems one have "receive_contracts env rcs (r1, b1, w1) = ((reg', b', ws'), err)"
      by simp
    from Cons.IH[OF this Cons.prems(2)]
    consider "i \<in> set b1"
      | rc v where "rc \<in> set rcs" "rc_verificationId rc = i" "map_of r1 i = Some v"
          "isVerifiable (retarget rc v)"
      | rc where "rc \<in> set rcs" "rc_verificationId rc = i" "map_of r1 i = None"
          "i \<in> set object_prototype_names" "isVerifiable_member env rc = Inr True"
      by blast
    then show ?thesis
    proof cases
      case 1
      with head show ?thesis by auto
    next
      case 2
      from 2(3) reg1 obtain w where w: "map_of reg i = Some w"
        and v: "v = (if rc_verificationId rc0 = i then retarget rc0 w else w)"
        by (cases "map_of reg i") auto
      from v have "retarget rc v = retarget rc w" by (simp add: retarget_twice)
      with 2 w show ?thesis by auto
    next
      case 3
      from 3(3) reg1 have "map_of reg i = None" by (cases "map_of reg i") auto
      with 3 show ?thesis by auto
    qed
  qed
qed

lemma receive_contracts_verifiable:
  assumes loop: "receive_contracts env rcs (reg, [], ws) = ((reg', b', ws'), None)"
    and d: "distinct (map rc_verificationId rcs)"
    and i: "i \<in> set b'" and w: "map_of reg i = Some w"
  shows "\<exists>v. map_of reg' i = Some v \<and> isVerifiable v"
proof -
  from receive_contracts_batch[OF loop i] w obtain rc where
    rc: "rc \<in> set rcs" "rc_verificationId rc = i" "isVerifiable (retarget rc w)"
    by auto
  from last_named_only[OF d rc(1)] rc(2) have "last_named i rcs = Some rc" by simp
  then have "retargeted i rcs w = retarget rc w" by (simp add: retargeted_def)
  with receive_contracts_registry[OF loop, of i] w rc(3) show ?thesis by simp
qed

lemma verify_endpoint_empty:
  "no_wrappers s \<Longrightarrow> session_after (verifyContractsInSessionEndpoint env rcs s) = s"
  "no_wrappers s \<Longrightarrow> calls (verifyContractsInSessionEndpoint env rcs s) = []"
  "no_wrappers s \<Longrightarrow> response (verifyContractsInSessionEndpoint env rcs s) =
     Inl (BadRequestError ''There are currently no pending contracts.'')"
  by (simp_all add: verifyContractsInSessionEndpoint_def throw_def)

lemma verify_endpoint_thrown:
  assumes "\<not> no_wrappers s"
    and "receive_contracts env rcs (registry_of s, [], []) = ((reg, b, ws), Some e)"
  shows "session_after (verifyContractsInSessionEndpoint env rcs s) = s\<lparr>contractWrappers := Some reg\<rparr>"
    and "calls (verifyContractsInSessionEndpoint env rcs s) = ws"
    and "response (verifyContractsInSessionEndpoint env rcs s) = Inl e"
  using assms by (simp_all add: verifyContractsInSessionEndpoint_def throw_def)

lemma verify_endpoint_done:
  assumes "\<not> no_wrappers s"
    and "receive_contracts env rcs (registry_of s, [], []) = ((reg, b, ws), None)"
  shows "session_after (verifyContractsInSessionEndpoint env rcs s) =
           fst (verifyContractsInSession env b (s\<lparr>contractWrappers := Some reg\<rparr>))"
    and "calls (verifyContractsInSessionEndpoint env rcs s) =
           ws @ Call_verifyContractsInSession b (s\<lparr>contractWrappers := Some reg\<rparr>) #
             snd (verifyContractsInSession env b (s\<lparr>contractWrappers := Some reg\<rparr>))"
    and "response (verifyContractsInSessionEndpoint env rcs s) =
           Inr (SessionData (getSessionJSON env
                  (session_after (verifyContractsInSessionEndpoint env rcs s))))"
  using assms
  by (simp_all add: verifyContractsInSessionEndpoint_def send_def split: prod.splits)

lemma verify_endpoint_call:
  assumes "Call_verifyContractsInSession batch s1 \<in>
             set (calls (verifyContractsInSessionEndpoint env rcs s))"
  shows "\<not> no_wrappers s \<and>
         (\<exists>reg ws. receive_contracts env rcs (registry_of s, [], []) = ((reg, batch, ws), None) \<and>
                   s1 = s\<lparr>contractWrappers := Some reg\<rparr>)"
proof -
  from assms have ne: "\<not> no_wrappers s"
    using verify_endpoint_empty(2)[of s env rcs] by auto
  obtain reg b ws err where loop:
    "receive_contracts env rcs (registry_of s, [], []) = ((reg, b, ws), err)"
    by (rule received_result)
  have ws: "\<forall>e\<in>set ws. prototype_write e"
    by (rule receive_contracts_writes[OF loop]) simp
  then have nws: "Call_verifyContractsInSession batch s1 \<notin> set ws" by auto
  show ?thesis
  proof (cases err)
    case (Some e)
    with assms nws verify_endpoint_thrown(2)[OF ne, of env rcs reg b ws e] loop
    show ?thesis by simp
  next
    case None
    have "\<forall>e\<in>set (snd (verifyContractsInSession env b (s\<lparr>contractWrappers := Some reg\<rparr>))).
            engine_call e"
      by (rule orchestrator_events)
    then have "Call_verifyContractsInSession batch s1 \<notin>
                 set (snd (verifyContractsInSession env b (s\<lparr>contractWrappers := Some reg\<rparr>)))"
      by auto
    with assms nws verify_endpoint_done(2)[OF ne, of env rcs reg b ws] loop None
    have "batch = b \<and> s1 = s\<lparr>contractWrappers := Some reg\<rparr>" by auto
    with ne loop None show ?thesis by auto
  qed
qed


lemma verify_endpoint_keys:
  "map fst (registry_of (session_after (verifyContractsInSessionEndpoint env rcs s))) =
   map fst (registry_of s)"
proof (cases "no_wrappers s")
  case True
  then show ?thesis by (simp add: verify_endpoint_empty)
next
  case False
  obtain reg b ws err where loop:
    "receive_contracts env rcs (registry_of s, [], []) = ((reg, b, ws), err)"
    by (rule received_result)
  from receive_contracts_keys[OF loop] have k: "map fst reg = map fst (registry_of s)" .
  show ?thesis
  proof (cases err)
    case None
    with False loop k show ?thesis
      by (simp add: verify_endpoint_done(1) orchestrator_registry keys_verify_each
          registry_of_update)
  next
    case (Some e)
    with False loop k show ?thesis
      by (simp add: verify_endpoint_thrown(1) registry_of_update)
  qed
qed

subsection \<open>Failures in a batch\<close>

text \<open>
  Claim C8. Each wrapper of a batch is settled by its own engine call: after the session
  verify endpoint, a wrapper of the batch is what \<open>settle\<close> makes of it and every
  other wrapper is as the batch was built, and the keys of the registry are unchanged, so
  no wrapper is removed. A wrapper whose engine call fails gets status \<open>error\<close> with the
  failure's message; a wrapper whose engine call returns gets the status of its own match,
  whatever happened to the others.
\<close>

theorem batch_failures_are_isolated:
  "(Call_verifyContractsInSession batch s1 \<in>
      set (calls (verifyContractsInSessionEndpoint env rcs s)) \<and>
    map_of (registry_of s1) i = Some w \<longrightarrow>
      map_of (registry_of (session_after (verifyContractsInSessionEndpoint env rcs s))) i =
        Some (if i \<in> set batch then settle env w else w)) \<and>
   map fst (registry_of (session_after (verifyContractsInSessionEndpoint env rcs s))) =
     map fst (registry_of s) \<and>
   (distinct b \<and> map_of (registry_of t) j = Some v \<longrightarrow>
      map_of (registry_of (fst (verifyContractsInSession env b t))) j =
        Some (if j \<in> set b then settle env v else v)) \<and>
   (verifyDeployed env (contract w) (chainId w) (address w) (creatorTxHash w) = Inl e \<longrightarrow>
      status (settle env w) = St_error \<and>
      statusMessage (settle env w) = Some (error_message e)) \<and>
   (verifyDeployed env (contract v) (chainId v) (address v) (creatorTxHash v) = Inr m \<longrightarrow>
      status (settle env v) =
        (case match_status m of
           None \<Rightarrow> St_false
         | Some k \<Rightarrow> (case storeMatch env (contract v) m of
                        None \<Rightarrow> St_valid k | Some e' \<Rightarrow> St_error)))"
proof (intro conjI impI)
  assume h: "Call_verifyContractsInSession batch s1 \<in>
      set (calls (verifyContractsInSessionEndpoint env rcs s)) \<and>
    map_of (registry_of s1) i = Some w"
  with verify_endpoint_call[of batch s1 env rcs s] obtain reg ws where
    ne: "\<not> no_wrappers s"
    and loop: "receive_contracts env rcs (registry_of s, [], []) = ((reg, batch, ws), None)"
    and s1: "s1 = s\<lparr>contractWrappers := Some reg\<rparr>"
    by blast
  have "distinct batch"
    by (rule receive_contracts_distinct_batch[OF loop]) simp
  from orchestrator_settles[OF this, of s1 i w env] h
  show "map_of (registry_of (session_after (verifyContractsInSessionEndpoint env rcs s))) i =
        Some (if i \<in> set batch then settle env w else w)"
    by (simp add: verify_endpoint_done(1)[OF ne loop] s1)
next
  show "map fst (registry_of (session_after (verifyContractsInSessionEndpoint env rcs s))) =
     map fst (registry_of s)"
    by (rule verify_endpoint_keys)
next
  assume "distinct b \<and> map_of (registry_of t) j = Some v"
  then show "map_of (registry_of (fst (verifyContractsInSession env b t))) j =
        Some (if j \<in> set b then settle env v else v)"
    using orchestrator_settles by blast
next
  assume "verifyDeployed env (contract w) (chainId w) (address w) (creatorTxHash w) = Inl e"
  then show "status (settle env w) = St_error" by (simp add: settle_def)
next
  assume "verifyDeployed env (contract w) (chainId w) (address w) (creatorTxHash w) = Inl e"
  then show "statusMessage (settle env w) = Some (error_message e)" by (simp add: settle_def)
next
  assume "verifyDeployed env (contract v) (chainId v) (address v) (creatorTxHash v) = Inr m"
  then show "status (settle env v) =
        (case match_status m of
           None \<Rightarrow> St_false
         | Some k \<Rightarrow> (case storeMatch env (contract v) m of
                        None \<Rightarrow> St_valid k | Some e' \<Rightarrow> St_error))"
    by (simp add: settle_def split: option.splits)
qed

theorem batch_failures_are_isolated_witness:
  "Call_verifyContractsInSession [''a'', ''c''] batch_targeted_ex \<in>
     set (calls (verifyContractsInSessionEndpoint env_ex batch_received_ex batch_session_ex)) \<and>
   verifyDeployed env_ex contract_ex (Some ''1'') (Some ''0xdead'') None =
     Inl (Failure ''network error'') \<and>
   map_option status (map_of (registry_of (session_after
       (verifyContractsInSessionEndpoint env_ex batch_received_ex batch_session_ex))) ''a'') =
     Some St_error \<and>
   map_option status (map_of (registry_of (session_after
       (verifyContractsInSessionEndpoint env_ex batch_received_ex batch_session_ex))) ''c'') =
     Some (St_valid valid_runtime)"
proof -
  let ?wa = "(pending_ex contract_ex)\<lparr>address := Some ''0xdead'', chainId := Some ''1''\<rparr>"
  let ?wc = "(pending_ex contract_ex)\<lparr>address := Some ''0x01'', chainId := Some ''1''\<rparr>"
  have call: "Call_verifyContractsInSession [''a'', ''c''] batch_targeted_ex \<in>
     set (calls (verifyContractsInSessionEndpoint env_ex batch_received_ex batch_session_ex))"
    by (simp add: verify_endpoint_defs env_ex_def pending_ex_def contract_ex_def match_ex_def
        batch_session_ex_def batch_received_ex_def batch_targeted_ex_def)
  have a: "map_of (registry_of batch_targeted_ex) ''a'' = Some ?wa"
    and c: "map_of (registry_of batch_targeted_ex) ''c'' = Some ?wc"
    by (simp_all add: batch_targeted_ex_def registry_of_def)
  have fa: "verifyDeployed env_ex (contract ?wa) (chainId ?wa) (address ?wa) (creatorTxHash ?wa) =
              Inl (Failure ''network error'')"
    by (simp add: env_ex_def pending_ex_def)
  have fc: "verifyDeployed env_ex (contract ?wc) (chainId ?wc) (address ?wc) (creatorTxHash ?wc) =
              Inr (match_ex (Some valid_runtime) ''0x01'')"
    by (simp add: env_ex_def pending_ex_def)
  have st: "match_status (match_ex (Some valid_runtime) ''0x01'') = Some valid_runtime \<and>
            storeMatch env_ex (contract ?wc) (match_ex (Some valid_runtime) ''0x01'') = None"
    by (simp add: env_ex_def match_ex_def)
  have eng: "verifyDeployed env_ex contract_ex (Some ''1'') (Some ''0xdead'') None =
     Inl (Failure ''network error'')"
    by (simp add: env_ex_def)
  note A = batch_failures_are_isolated
         [where batch = "[''a'', ''c'']" and ?s1.0 = batch_targeted_ex and env = env_ex
            and rcs = batch_received_ex and s = batch_session_ex and i = "''a''" and w = ?wa
            and b = "[''a'', ''c'']" and t = batch_targeted_ex and j = "''c''" and v = ?wc
            and e = "Failure ''network error''"
            and m = "match_ex (Some valid_runtime) ''0x01''"]
  note C = batch_failures_are_isolated
         [where batch = "[''a'', ''c'']" and ?s1.0 = batch_targeted_ex and env = env_ex
            and rcs = batch_received_ex and s = batch_session_ex and i = "''c''" and w = ?wc
            and b = "[''a'', ''c'']" and t = batch_targeted_ex and j = "''c''" and v = ?wc
            and m = "match_ex (Some valid_runtime) ''0x01''"]
  from A call a fa have "map_option status (map_of (registry_of (session_after
       (verifyContractsInSessionEndpoint env_ex batch_received_ex batch_session_ex))) ''a'') =
     Some St_error"
    by simp
  moreover from C A call c fc st have "map_option status (map_of (registry_of (session_after
       (verifyContractsInSessionEndpoint env_ex batch_received_ex batch_session_ex))) ''c'') =
     Some (St_valid valid_runtime)"
    by simp
  ultimately show ?thesis using call eng by simp
qed


subsection \<open>Which wrappers reach the orchestrator\<close>

lemma target_unset_verifiable: "isVerifiable w \<Longrightarrow> isVerifiable (target_unset a c w)"
  by (simp add: isVerifiable_def target_unset_def)

lemma select_wrapper_ok: "batch_ok acc \<Longrightarrow> batch_ok (select_wrapper a c j acc)"
  by (cases acc)
     (auto simp: batch_ok_def select_wrapper_def place_def map_of_modify_wrapper
         target_unset_verifiable split: option.splits)

lemma select_fold_ok:
  "batch_ok acc \<Longrightarrow> batch_ok (foldl (\<lambda>x i. select_wrapper a c i x) acc ks)"
  by (induction ks arbitrary: acc) (auto simp: select_wrapper_ok)

lemma select_wrappers_ok: "batch_ok (select_wrappers a c reg)"
  unfolding select_wrappers_def by (rule select_fold_ok) (simp add: batch_ok_def)

lemma import_call:
  assumes "Call_verifyContractsInSession batch s1 \<in> set (calls (import_into_session env chain addr pcs s))"
  shows "batch_ok (registry_of s1, batch)"
proof -
  obtain n t1 where sv: "saveFiles pcs s = (n, t1)" by (cases "saveFiles pcs s")
  obtain t2 err where ck: "checkContractsInSession_ext env t1 = (t2, err)"
    by (cases "checkContractsInSession_ext env t1")
  from assms sv ck obtain reg where reg: "contractWrappers t2 = Some reg" and "n \<noteq> 0" and "err = None"
    by (auto simp: import_into_session_def throw_def no_new_file_def split: if_splits option.splits)
  obtain reg' verifiable where sel: "select_wrappers addr chain reg = (reg', verifiable)"
    by (cases "select_wrappers addr chain reg")
  obtain t3 evs where orch:
    "verifyContractsInSession env verifiable (t2\<lparr>contractWrappers := Some reg'\<rparr>) = (t3, evs)"
    by (cases "verifyContractsInSession env verifiable (t2\<lparr>contractWrappers := Some reg'\<rparr>)")
  have "\<forall>e\<in>set evs. engine_call e"
    using orchestrator_events[of env verifiable "t2\<lparr>contractWrappers := Some reg'\<rparr>"] orch by simp
  then have "Call_verifyContractsInSession batch s1 \<notin> set evs" by auto
  with assms sv ck reg \<open>n \<noteq> 0\<close> \<open>err = None\<close> sel orch
  have "batch = verifiable" and "s1 = t2\<lparr>contractWrappers := Some reg'\<rparr>"
    by (auto simp: import_into_session_def send_def)
  with select_wrappers_ok[of addr chain reg] sel show ?thesis
    by (simp add: registry_of_def)
qed

lemma etherscan_call:
  assumes "Call_verifyContractsInSession batch s1 \<in> set (calls (sessionVerifyFromEtherscan env req s))"
  shows "batch_ok (registry_of s1, batch)"
  using assms import_call
  by (auto simp: sessionVerifyFromEtherscan_def throw_def split: option.splits sum.splits)

lemma submit_files_call:
  assumes "Call_verifyContractsInSession batch s1 \<in> set (calls (submit_files env pcs s))"
  shows "batch = map fst (registry_of s1)"
proof -
  obtain n t1 where sv: "saveFiles pcs s = (n, t1)" by (cases "saveFiles pcs s")
  obtain t2 err where ck: "checkContractsInSession_ext env t1 = (t2, err)"
    by (cases "checkContractsInSession_ext env t1")
  from assms sv ck have n: "n \<noteq> 0" and err: "err = None"
    by (auto simp: submit_files_def throw_def send_def split: if_splits option.splits)
  have "\<forall>e\<in>set (snd (verifyContractsInSession env (map fst (registry_of t2)) t2)). engine_call e"
    by (rule orchestrator_events)
  then have "Call_verifyContractsInSession batch s1 \<notin>
               set (snd (verifyContractsInSession env (map fst (registry_of t2)) t2))"
    by auto
  with assms sv ck n err show ?thesis
    by (auto simp: submit_files_def send_def split: prod.splits)
qed

lemma upload_call:
  "Call_verifyContractsInSession batch s1 \<in> set (calls (addInputFilesEndpoint env req s)) \<Longrightarrow>
   batch = map fst (registry_of s1)"
  using submit_files_call
  by (auto simp: addInputFilesEndpoint_def throw_def split: sum.splits)

lemma contract_input_call:
  "Call_verifyContractsInSession batch s1 \<in> set (calls (addInputContractEndpoint env req s)) \<Longrightarrow>
   batch = map fst (registry_of s1)"
  using submit_files_call
  by (auto simp: addInputContractEndpoint_def throw_def split: sum.splits)

text \<open>
  Claim C1 says that only wrappers satisfying the predicate are placed in the batch handed
  to the orchestrator. The file upload endpoint hands over the whole registry: after a new
  file, the batch is \<open>a\<close> and \<open>b\<close>, and \<open>b\<close> misses a source. And in the session
  verify endpoint a request that names \<open>a\<close> twice, first with a target and then without,
  hands over \<open>a\<close> with no address and no chainId.
\<close>

theorem unfiltered_batch_counterexample:
  "Call_verifyContractsInSession [''a'', ''b''] uploaded_ex \<in>
     set (calls (addInputFilesEndpoint env_ex new_file_request_ex session_ex)) \<and>
   map_option isVerifiable (map_of (registry_of uploaded_ex) ''b'') = Some False \<and>
   Call_verifyContractsInSession [''a''] session_ex \<in>
     set (calls (verifyContractsInSessionEndpoint env_ex twice_ex session_ex)) \<and>
   map_option isVerifiable (map_of (registry_of session_ex) ''a'') = Some False"
  by (simp add: addInputFilesEndpoint_def input_pathContents_def submit_files_def saveFiles_def
      verify_endpoint_defs env_ex_def session_ex_def pending_ex_def contract_ex_def match_ex_def
      new_file_request_ex_def uploaded_ex_def twice_ex_def)

text \<open>
  Claim C1, as the code has it. A wrapper is verifiable exactly when its missing-source
  list and its invalid-source list are empty and its address and chainId are set. In the
  session verify endpoint a key is placed in the batch only for a wrapper that some
  received contract names and, with that contract's address and chainId written into it,
  leaves verifiable, or for an inherited member of the registry object on which
  \<open>isVerifiable\<close> answered true; when the request names no verification id twice, every
  wrapper of the batch is verifiable when the orchestrator is called. In the session
  block-explorer import every wrapper of the batch is verifiable when the orchestrator is
  called. The file upload and contract input endpoints hand the whole registry to the
  orchestrator.
\<close>

theorem isVerifiable_selects_batch:
  "(isVerifiable w \<longleftrightarrow>
      missing (contract w) = [] \<and> invalid (contract w) = [] \<and>
      address w \<noteq> None \<and> chainId w \<noteq> None) \<and>
   (Call_verifyContractsInSession batch s1 \<in>
      set (calls (verifyContractsInSessionEndpoint env rcs s)) \<and> i \<in> set batch \<longrightarrow>
      ((\<exists>v. map_of (registry_of s) i = Some v \<and>
            (\<exists>rc\<in>set rcs. rc_verificationId rc = i \<and> isVerifiable (retarget rc v))) \<or>
       (map_of (registry_of s) i = None \<and> i \<in> set object_prototype_names \<and>
        (\<exists>rc\<in>set rcs. rc_verificationId rc = i \<and> isVerifiable_member env rc = Inr True))) \<and>
      (distinct (map rc_verificationId rcs) \<and> map_of (registry_of s) i \<noteq> None \<longrightarrow>
         (\<exists>v. map_of (registry_of s1) i = Some v \<and> isVerifiable v))) \<and>
   (Call_verifyContractsInSession batch' s2 \<in>
      set (calls (sessionVerifyFromEtherscan env req s')) \<and> j \<in> set batch' \<longrightarrow>
      (\<exists>v. map_of (registry_of s2) j = Some v \<and> isVerifiable v)) \<and>
   (Call_verifyContractsInSession b3 s3 \<in> set (calls (addInputFilesEndpoint env freq t)) \<longrightarrow>
      b3 = map fst (registry_of s3)) \<and>
   (Call_verifyContractsInSession b4 s4 \<in> set (calls (addInputContractEndpoint env creq u)) \<longrightarrow>
      b4 = map fst (registry_of s4))"
proof (intro conjI impI)
  show "isVerifiable w \<longleftrightarrow>
      missing (contract w) = [] \<and> invalid (contract w) = [] \<and>
      address w \<noteq> None \<and> chainId w \<noteq> None"
    by (simp add: isVerifiable_def)
next
  assume h: "Call_verifyContractsInSession batch s1 \<in>
      set (calls (verifyContractsInSessionEndpoint env rcs s)) \<and> i \<in> set batch"
  with verify_endpoint_call[of batch s1 env rcs s] obtain reg ws where
    loop: "receive_contracts env rcs (registry_of s, [], []) = ((reg, batch, ws), None)"
    by blast
  from receive_contracts_batch[OF loop, of i] h
  show "(\<exists>v. map_of (registry_of s) i = Some v \<and>
            (\<exists>rc\<in>set rcs. rc_verificationId rc = i \<and> isVerifiable (retarget rc v))) \<or>
       (map_of (registry_of s) i = None \<and> i \<in> set object_prototype_names \<and>
        (\<exists>rc\<in>set rcs. rc_verificationId rc = i \<and> isVerifiable_member env rc = Inr True))"
    by auto
next
  assume h: "Call_verifyContractsInSession batch s1 \<in>
      set (calls (verifyContractsInSessionEndpoint env rcs s)) \<and> i \<in> set batch"
    and d: "distinct (map rc_verificationId rcs) \<and> map_of (registry_of s) i \<noteq> None"
  with verify_endpoint_call[of batch s1 env rcs s] obtain reg ws where
    loop: "receive_contracts env rcs (registry_of s, [], []) = ((reg, batch, ws), None)"
    and s1: "s1 = s\<lparr>contractWrappers := Some reg\<rparr>"
    by blast
  from d obtain v0 where "map_of (registry_of s) i = Some v0" by auto
  from receive_contracts_verifiable[OF loop _ _ this] h d
  show "\<exists>v. map_of (registry_of s1) i = Some v \<and> isVerifiable v"
    by (simp add: s1 registry_of_update)
next
  assume "Call_verifyContractsInSession batch' s2 \<in>
      set (calls (sessionVerifyFromEtherscan env req s')) \<and> j \<in> set batch'"
  with etherscan_call[of batch' s2 env req s']
  show "\<exists>v. map_of (registry_of s2) j = Some v \<and> isVerifiable v"
    by (auto simp: batch_ok_def)
next
  assume "Call_verifyContractsInSession b3 s3 \<in> set (calls (addInputFilesEndpoint env freq t))"
  then show "b3 = map fst (registry_of s3)" by (rule upload_call)
next
  assume "Call_verifyContractsInSession b4 s4 \<in> set (calls (addInputContractEndpoint env creq u))"
  then show "b4 = map fst (registry_of s4)" by (rule contract_input_call)
qed

theorem isVerifiable_selects_batch_witness:
  "Call_verifyContractsInSession [''a''] targeted_ex \<in>
     set (calls (verifyContractsInSessionEndpoint env_ex received_ex session_ex)) \<and>
   distinct (map rc_verificationId received_ex) \<and>
   (\<exists>v. map_of (registry_of targeted_ex) ''a'' = Some v \<and> isVerifiable v) \<and>
   Call_verifyContractsInSession [''a''] imported_ex \<in>
     set (calls (sessionVerifyFromEtherscan env_ex import_request_ex session_ex)) \<and>
   (\<exists>v. map_of (registry_of imported_ex) ''a'' = Some v \<and> isVerifiable v) \<and>
   Call_verifyContractsInSession [''a'', ''b''] uploaded_ex \<in>
     set (calls (addInputFilesEndpoint env_ex new_file_request_ex session_ex)) \<and>
   Call_verifyContractsInSession [''a'', ''b''] fetched_ex \<in>
     set (calls (addInputContractEndpoint env_ex contract_request_ex session_ex)) \<and>
   map fst (registry_of uploaded_ex) = [''a'', ''b''] \<and>
   map fst (registry_of fetched_ex) = [''a'', ''b'']"
proof -
  have h1: "Call_verifyContractsInSession [''a''] targeted_ex \<in>
     set (calls (verifyContractsInSessionEndpoint env_ex received_ex session_ex))"
    by (simp add: verify_endpoint_defs env_ex_def session_ex_def pending_ex_def contract_ex_def
        match_ex_def received_ex_def targeted_ex_def)
  have h2: "distinct (map rc_verificationId received_ex) \<and>
            map_of (registry_of session_ex) ''a'' \<noteq> None"
    by (simp add: received_ex_def session_ex_def registry_of_def)
  have h3: "Call_verifyContractsInSession [''a''] imported_ex \<in>
     set (calls (sessionVerifyFromEtherscan env_ex import_request_ex session_ex))"
    by (simp add: sessionVerifyFromEtherscan_def import_into_session_def
        etherscan_pathContents_def select_wrappers_def select_wrapper_def target_unset_def
        truthy_def saveFiles_def verify_endpoint_defs env_ex_def session_ex_def pending_ex_def
        contract_ex_def match_ex_def import_request_ex_def imported_ex_def)
  have h4: "''a'' \<in> set [''a'']"
    by simp
  have h5: "Call_verifyContractsInSession [''a'', ''b''] uploaded_ex \<in>
     set (calls (addInputFilesEndpoint env_ex new_file_request_ex session_ex))"
    by (simp add: addInputFilesEndpoint_def input_pathContents_def submit_files_def saveFiles_def
        verify_endpoint_defs env_ex_def session_ex_def pending_ex_def contract_ex_def
        match_ex_def new_file_request_ex_def uploaded_ex_def)
  have h6: "Call_verifyContractsInSession [''a'', ''b''] fetched_ex \<in>
     set (calls (addInputContractEndpoint env_ex contract_request_ex session_ex))"
    by (simp add: addInputContractEndpoint_def retrieved_pathContents_def fetch_metadata_def
        submit_files_def saveFiles_def verify_endpoint_defs env_ex_def session_ex_def
        pending_ex_def contract_ex_def match_ex_def contract_request_ex_def fetched_ex_def)
  from isVerifiable_selects_batch
         [where w = "pending_ex contract_ex"
            and batch = "[''a'']" and ?s1.0 = targeted_ex and env = env_ex
            and rcs = received_ex and s = session_ex and i = "''a''"
            and batch' = "[''a'']" and ?s2.0 = imported_ex and req = import_request_ex
            and s' = session_ex and j = "''a''"
            and ?b3.0 = "[''a'', ''b'']" and ?s3.0 = uploaded_ex and freq = new_file_request_ex
            and t = session_ex
            and ?b4.0 = "[''a'', ''b'']" and ?s4.0 = fetched_ex and creq = contract_request_ex
            and u = session_ex]
       h1 h2 h3 h4 h5 h6
  show ?thesis by (simp only: ) metis
qed


subsection \<open>Retargeting a wrapper\<close>







subsection \<open>What the session verify endpoint returns\<close>







end
